theory Spec2Isabelle
  imports Complex_Main "HOL-Library.Multiset" "HOL-Library.Product_Lexorder"
begin

section \<open>Common data: exceptions and floating-point cells\<close>

text \<open>
  The Python exceptions that the modelled functions can raise. A function that can raise
  returns \<open>error + 'a\<close>, with \<open>Inl\<close> for the exception.
\<close>

datatype error =
  ValueError | KeyError | AttributeError | AssertionError | UnboundLocalError | TypeError

text \<open>
  A floating-point cell of a table: a finite number, one of the two infinities, or NaN.
  Only the comparisons are modelled (they are what the code branches on); NaN compares
  false with everything, as in Python and numpy. Finite values are rationals, so
  rounding is outside the model.
\<close>

datatype flt = NaN | NegInf | Fin rat | PosInf

fun flt_less :: "flt \<Rightarrow> flt \<Rightarrow> bool" where
  "flt_less NaN _ = False"
| "flt_less _ NaN = False"
| "flt_less NegInf NegInf = False"
| "flt_less NegInf _ = True"
| "flt_less (Fin a) (Fin b) = (a < b)"
| "flt_less (Fin a) PosInf = True"
| "flt_less (Fin a) NegInf = False"
| "flt_less PosInf _ = False"

fun flt_ge :: "flt \<Rightarrow> flt \<Rightarrow> bool" where
  "flt_ge NaN _ = False"
| "flt_ge _ NaN = False"
| "flt_ge a b = (\<not> flt_less a b)"

definition isna :: "flt \<Rightarrow> bool" where
  "isna x = (x = NaN)"

section \<open>Graph construction: \<open>NetworkAnalysis._make_graph\<close>\<close>

text \<open>
  The scan behind Python's \<open>min\<close> and pandas' \<open>idxmin\<close>: keep the current element
  and replace it whenever a later element compares smaller under the key, so the first
  of several least elements wins.
\<close>

fun first_min_by :: "('a \<Rightarrow> flt) \<Rightarrow> 'a \<Rightarrow> 'a list \<Rightarrow> 'a" where
  "first_min_by key m [] = m"
| "first_min_by key m (x # xs) =
     first_min_by key (if flt_less (key x) (key m) then x else m) xs"

text \<open>
  Python's builtin \<open>min\<close> over a list: it raises ValueError on an empty list. With NaN
  in the list the result depends on the position of the NaN.
\<close>

fun py_min :: "flt list \<Rightarrow> error + flt" where
  "py_min [] = Inl ValueError"
| "py_min (x # xs) = Inr (first_min_by (\<lambda>w. w) x xs)"

text \<open>
  The igraph graph, as far as \<open>_make_graph\<close> fills it: the vertex names in the order
  of their first appearance in the edge list, and the edge attributes, one value per edge.
\<close>

record 'v graph =
  directed :: bool
  vs_name :: "'v list"
  es_edge_tuples :: "('v \<times> 'v) list"
  es_weight :: "flt list"
  es_source_target_weight :: "string list"
  es_source :: "'v list"
  es_target :: "'v list"

definition TupleList :: "('v \<times> 'v) list \<Rightarrow> bool \<Rightarrow> 'v graph" where
  "TupleList edges dir =
     \<lparr>directed = dir,
      vs_name = rev (remdups (rev (concat (map (\<lambda>(a, b). [a, b]) edges)))),
      es_edge_tuples = edges, es_weight = [], es_source_target_weight = [],
      es_source = [], es_target = []\<rparr>"

text \<open>
  \<open>_make_graph\<close>: the two assertions are the only exits besides the return. The caller
  passes one edge id per edge.
\<close>

definition make_graph ::
  "('v \<times> 'v) list \<Rightarrow> flt list \<Rightarrow> string list \<Rightarrow> bool \<Rightarrow> error + 'v graph" where
  "make_graph edges weights edge_ids dir =
     (if length edges \<noteq> length weights then Inl AssertionError
      else
        let graph = (TupleList edges dir)
              \<lparr>es_weight := weights, es_source_target_weight := edge_ids,
               es_edge_tuples := edges, es_source := map fst edges,
               es_target := map snd edges\<rparr>
        in case py_min (es_weight graph) of
             Inl e \<Rightarrow> Inl e
           | Inr m \<Rightarrow> if flt_ge m (Fin 0) then Inr graph else Inl AssertionError)"

section \<open>The cost matrix: \<open>gis_utils.od_cost_matrix\<close>\<close>

text \<open>
  The points carry the temp id under which they are vertices of the graph and their
  geometry as WKT text, which is what the function compares. The graph backend is the
  parameter \<open>distances\<close> (igraph's \<open>Graph.distances\<close> with the weight attribute); the
  straight lines of \<open>lines=True\<close> add a geometry column and change no row or cost,
  they are left out.
\<close>

record 'v point =
  temp_idx :: 'v
  wkt :: string

record 'v od_row =
  origin :: 'v
  destination :: 'v
  cost :: flt

text \<open>The two loops that pair origins with destinations, all pairs or rowwise (\<open>zip\<close>).\<close>

definition od_pairs :: "bool \<Rightarrow> 'v point list \<Rightarrow> 'v point list \<Rightarrow> ('v \<times> 'v) list" where
  "od_pairs rowwise startpoints endpoints =
     (if \<not> rowwise
      then concat (map (\<lambda>f_idx. map (\<lambda>t_idx. (f_idx, t_idx)) (map temp_idx endpoints))
                       (map temp_idx startpoints))
      else zip (map temp_idx startpoints) (map temp_idx endpoints))"

text \<open>
  The clean-up \<open>df.replace([inf, -inf], nan).loc[(df[cost] > 0) | df[cost].isna()]\<close>:
  the mask is computed on the frame before the replacement.
\<close>

definition replace_inf :: "flt \<Rightarrow> flt" where
  "replace_inf c = (if c = PosInf \<or> c = NegInf then NaN else c)"

definition cleanup :: "'v od_row list \<Rightarrow> 'v od_row list" where
  "cleanup df =
     map (\<lambda>r. r\<lparr>cost := replace_inf (cost r)\<rparr>)
         (filter (\<lambda>r. flt_less (Fin 0) (cost r) \<or> isna (cost r)) df)"

text \<open>Python's truth value of an optional number: \<open>None\<close> and 0 are false.\<close>

definition truthy :: "('a::zero) option \<Rightarrow> bool" where
  "truthy x = (case x of None \<Rightarrow> False | Some n \<Rightarrow> n \<noteq> 0)"

definition apply_cutoff :: "rat option \<Rightarrow> 'v od_row list \<Rightarrow> 'v od_row list" where
  "apply_cutoff cutoff out =
     (case cutoff of
        None \<Rightarrow> out
      | Some c \<Rightarrow> if c = 0 then out else filter (\<lambda>r. flt_less (cost r) (Fin c)) out)"

text \<open>
  \<open>out.loc[out.groupby("origin")[cost].idxmin()]\<close>: the groups come in the order of
  their keys, and each gives its first row of least cost.
\<close>

fun idxmin :: "'v od_row list \<Rightarrow> 'v od_row option" where
  "idxmin [] = None"
| "idxmin (r # rs) = Some (first_min_by cost r rs)"

definition groupby_idxmin :: "('v::linorder) od_row list \<Rightarrow> 'v od_row list" where
  "groupby_idxmin out =
     concat (map (\<lambda>k. case idxmin (filter (\<lambda>r. origin r = k) out) of
                         None \<Rightarrow> [] | Some r \<Rightarrow> [r])
                 (sort (remdups (map origin out))))"

definition apply_destination_count :: "nat option \<Rightarrow> ('v::linorder) od_row list \<Rightarrow> 'v od_row list" where
  "apply_destination_count destination_count out =
     (if truthy destination_count
      then groupby_idxmin (filter (\<lambda>r. \<not> isna (cost r)) out)
      else out)"

text \<open>
  The dictionaries from temp id to WKT (a later point with the same id overwrites an
  earlier one), and \<open>!=\<close> on the mapped columns, where a missing key gives NaN, which
  differs from everything.
\<close>

definition wkt_dict :: "'v point list \<Rightarrow> 'v \<Rightarrow> string option" where
  "wkt_dict points = map_of (rev (map (\<lambda>p. (temp_idx p, wkt p)) points))"

definition wkt_ne :: "string option \<Rightarrow> string option \<Rightarrow> bool" where
  "wkt_ne a b = (case (a, b) of (Some x, Some y) \<Rightarrow> x \<noteq> y | _ \<Rightarrow> True)"

definition od_df :: "('v \<Rightarrow> 'v \<Rightarrow> flt) \<Rightarrow> ('v \<times> 'v) list \<Rightarrow> 'v od_row list" where
  "od_df distances pairs =
     map (\<lambda>(f_idx, t_idx).
            \<lparr>origin = f_idx, destination = t_idx, cost = distances f_idx t_idx\<rparr>) pairs"

definition set_zero_if_same ::
  "'v point list \<Rightarrow> 'v point list \<Rightarrow> 'v od_row \<Rightarrow> 'v od_row" where
  "set_zero_if_same startpoints endpoints r =
     (if wkt_ne (wkt_dict startpoints (origin r)) (wkt_dict endpoints (destination r))
      then r else r\<lparr>cost := Fin 0\<rparr>)"

text \<open>
  The reported costs whose rows reach the grouping step of \<open>destination_count\<close>:
  positive numbers, below the cutoff when one is set.
\<close>

definition reported_cost_kept :: "rat option \<Rightarrow> flt \<Rightarrow> bool" where
  "reported_cost_kept cutoff d =
     (case d of
        Fin c \<Rightarrow> 0 < c \<and> (case cutoff of None \<Rightarrow> True | Some k \<Rightarrow> k = 0 \<or> c < k)
      | _ \<Rightarrow> False)"

definition od_cost_matrix ::
  "('v \<Rightarrow> 'v \<Rightarrow> flt) \<Rightarrow> ('v::linorder) point list \<Rightarrow> 'v point list \<Rightarrow> bool \<Rightarrow>
   rat option \<Rightarrow> nat option \<Rightarrow> 'v od_row list" where
  "od_cost_matrix distances startpoints endpoints rowwise cutoff destination_count =
     (let df = od_df distances (od_pairs rowwise startpoints endpoints);
          out = cleanup df;
          out = apply_cutoff cutoff out;
          out = apply_destination_count destination_count out
      in map (set_zero_if_same startpoints endpoints) out)"

text \<open>Example inputs: two origins, two destinations; origin 10 and destination 12 coincide.\<close>

definition ex_startpoints :: "nat point list" where
  "ex_startpoints =
     [\<lparr>temp_idx = 10, wkt = ''POINT (0 0)''\<rparr>, \<lparr>temp_idx = 11, wkt = ''POINT (5 5)''\<rparr>]"

definition ex_endpoints :: "nat point list" where
  "ex_endpoints =
     [\<lparr>temp_idx = 12, wkt = ''POINT (0 0)''\<rparr>, \<lparr>temp_idx = 13, wkt = ''POINT (9 9)''\<rparr>]"

definition ex_distances :: "nat \<Rightarrow> nat \<Rightarrow> flt" where
  "ex_distances a b =
     (if a = 10 \<and> b = 12 then Fin 4 else if a = 10 then Fin 3
      else if b = 12 then PosInf else Fin 0)"

section \<open>The analysis object: \<open>sgis.networkanalysis.NetworkAnalysis\<close>\<close>

text \<open>
  A row of the network's line table, with the columns the analysis reads and writes: the
  geometry (any type: the geometry kernel is outside), the weight, and the three
  columns the splitting adds (\<open>meters_col\<close> is the column \<open>meters_\<close> and
  \<open>temp_idx_col\<close> the column \<open>temp_idx__\<close>). A column that is not there is \<open>None\<close>;
  the \<open>splitted\<close> mark is 1 on the pieces of a split line and NaN elsewhere.
\<close>

record 'g line =
  geometry :: 'g
  weight :: flt
  meters_col :: "flt option"
  temp_idx_col :: "nat option"
  splitted :: flt

text \<open>
  The network: its line table \<open>gdf\<close> and the attribute \<open>_not_splitted\<close>, which exists
  only between \<open>_split_lines\<close> and \<open>_unsplit_network\<close>.
\<close>

record 'g network =
  gdf :: "'g line list"
  not_splitted :: "'g line list option"

text \<open>
  The rules, as far as the calls read them; \<open>rules_have_changed\<close> is the answer of
  \<open>_rules_have_changed\<close>.
\<close>

record rules =
  split_lines :: bool
  search_tolerance :: flt
  rules_have_changed :: bool

text \<open>
  An origin or destination point of the analysis: the temp id and the geometry as
  before, and the label \<open>idx\<close> the point has in the caller's table.
\<close>

record ('v, 'i) spoint = "'v point" +
  idx :: 'i

text \<open>
  The collaborators that are not in the sources, as parameters: the weight validation of
  the rules, the length and the cutting of a geometry (the geometry kernel; \<open>cut_at\<close>
  gets the WKT of the points and the tolerance, and gives the pieces, at least one, of a
  line that has a point within the tolerance), the floating-point product
  \<open>weight * (length / meters_)\<close>, the edge list of the network and the connector
  edges with their weights and ids, the network's answer whether its node ids are up to
  date, and whether the network is directed.
\<close>

record ('v, 'g) collab =
  validate_weight :: "'g line list \<Rightarrow> error + 'g line list"
  geom_length :: "'g \<Rightarrow> flt"
  cut_at :: "string list \<Rightarrow> flt \<Rightarrow> 'g \<Rightarrow> ('g \<times> 'g list) option"
  rescale :: "flt \<Rightarrow> flt \<Rightarrow> flt \<Rightarrow> flt"
  edges_and_weights :: "'g line list \<Rightarrow> ('v \<times> 'v) list \<times> flt list \<times> string list"
  nodes_are_up_to_date :: "'g line list \<Rightarrow> bool"
  as_directed :: bool

text \<open>pandas' \<open>drop_duplicates\<close> on a key: the first row of every key stays.\<close>

fun drop_duplicates_from :: "('a \<Rightarrow> 'k) \<Rightarrow> 'k list \<Rightarrow> 'a list \<Rightarrow> 'a list" where
  "drop_duplicates_from key seen [] = []"
| "drop_duplicates_from key seen (x # xs) =
     (if key x \<in> set seen then drop_duplicates_from key seen xs
      else x # drop_duplicates_from key (key x # seen) xs)"

definition drop_duplicates :: "('a \<Rightarrow> 'k) \<Rightarrow> 'a list \<Rightarrow> 'a list" where
  "drop_duplicates key xs = drop_duplicates_from key [] xs"

text \<open>
  Modelled from the spec: \<open>split_lines_by_nearest_point\<close> of
  \<open>sgis.geopandas_tools.line_operations\<close>, which is not in the sources. The spec has it
  split the network lines at the snap points; \<open>_split_lines\<close> reads from its result the
  column \<open>splitted\<close>, 1 on the pieces, and the columns of the line a piece comes from.
  A line without a point within the tolerance is returned as it is.
\<close>

definition split_lines_by_nearest_point ::
  "('g \<Rightarrow> ('g \<times> 'g list) option) \<Rightarrow> 'g line list \<Rightarrow> 'g line list" where
  "split_lines_by_nearest_point cutter lines =
     concat (map (\<lambda>l. case cutter (geometry l) of
                         None \<Rightarrow> [l\<lparr>splitted := NaN\<rparr>]
                       | Some (p, ps) \<Rightarrow>
                           map (\<lambda>g. l\<lparr>geometry := g, splitted := Fin 1\<rparr>) (p # ps))
                 lines)"

text \<open>\<open>_split_lines\<close>, on the points of the call (origins and destinations).\<close>

definition nwa_split_lines ::
  "('v, 'g) collab \<Rightarrow> rules \<Rightarrow> string list \<Rightarrow> 'g network \<Rightarrow> 'g network" where
  "nwa_split_lines C rls point_wkts nw =
     (let points = drop_duplicates (\<lambda>w. w) point_wkts;
          gdf1 = map (\<lambda>(i, l). l\<lparr>meters_col := Some (geom_length C (geometry l)),
                                  temp_idx_col := Some i\<rparr>)
                     (zip [0..<length (gdf nw)] (gdf nw));
          lines = split_lines_by_nearest_point
                    (cut_at C points (search_tolerance rls)) gdf1;
          splitted_ids = map temp_idx_col (filter (\<lambda>l. splitted l = Fin 1) lines);
          unsplit = filter (\<lambda>l. temp_idx_col l \<in> set splitted_ids) gdf1;
          lines = map (\<lambda>l. l\<lparr>weight :=
                     rescale C (weight l) (geom_length C (geometry l))
                       (case meters_col l of None \<Rightarrow> NaN | Some m \<Rightarrow> m)\<rparr>) lines
      in nw\<lparr>gdf := lines, not_splitted := Some unsplit\<rparr>)"

text \<open>
  \<open>_unsplit_network\<close>: without the attribute \<open>_not_splitted\<close> the method raises
  AttributeError.
\<close>

definition nwa_unsplit_network :: "'g network \<Rightarrow> error + 'g network" where
  "nwa_unsplit_network nw =
     (case not_splitted nw of
        None \<Rightarrow> Inl AttributeError
      | Some unsplit \<Rightarrow>
          Inr (nw\<lparr>gdf := map (\<lambda>l. l\<lparr>temp_idx_col := None\<rparr>)
                           (filter (\<lambda>l. splitted l \<noteq> Fin 1) (gdf nw) @ unsplit),
                  not_splitted := None\<rparr>))"

text \<open>
  The analysis object, as far as the calls change it: the network and the graph
  attribute, which is absent before the first call.
\<close>

record ('v, 'g) nwa =
  network :: "'g network"
  nw_graph :: "'v graph option"

text \<open>
  \<open>_graph_is_up_to_date\<close>: without a graph, or with changed rules, the answer is False.
  Otherwise the loop over "origins" and "destinations" starts with
  \<open>if not hasattr(self.wkts, points): return False\<close>, and \<open>self.wkts\<close> is the dict that
  \<open>_update_wkts\<close> makes, whose keys are not attributes: the first round returns False.
\<close>

definition graph_is_up_to_date :: "bool \<Rightarrow> bool \<Rightarrow> bool" where
  "graph_is_up_to_date has_graph rules_changed =
     (if \<not> has_graph then False
      else if rules_changed then False
      else False)"

text \<open>
  \<open>_get_edges_and_weights\<close>: with \<open>split_lines\<close> the network is split first, then the
  edge list is made from the lines as they then are.
\<close>

definition nwa_get_edges_and_weights ::
  "('v, 'g) collab \<Rightarrow> rules \<Rightarrow> string list \<Rightarrow> ('v, 'g) nwa \<Rightarrow>
   (('v \<times> 'v) list \<times> flt list \<times> string list) \<times> ('v, 'g) nwa" where
  "nwa_get_edges_and_weights C rls point_wkts st =
     (let st = (if split_lines rls
                then st\<lparr>network := nwa_split_lines C rls point_wkts (network st)\<rparr>
                else st)
      in (edges_and_weights C (gdf (network st)), st))"

text \<open>
  \<open>_add_missing_vertices\<close>: the temp ids of the origins that are no vertex yet are added,
  then those of the destinations.
\<close>

definition add_missing_vertices ::
  "'v list \<Rightarrow> 'v list option \<Rightarrow> 'v graph \<Rightarrow> 'v graph" where
  "add_missing_vertices origin_ids destination_ids g =
     (let g = g\<lparr>vs_name := vs_name g @ filter (\<lambda>i. i \<notin> set (vs_name g)) origin_ids\<rparr>
      in case destination_ids of
           None \<Rightarrow> g
         | Some ds \<Rightarrow> g\<lparr>vs_name := vs_name g @ filter (\<lambda>i. i \<notin> set (vs_name g)) ds\<rparr>)"

text \<open>
  \<open>_prepare_network_analysis\<close>. It returns the exception it raises, if any, and the
  object as it then is: what a step has assigned stays assigned when a later step
  raises. The point classes and the node ids are not in the sources; they add columns
  and temp ids and leave the rows of the line table alone, and are left out.
\<close>

definition nwa_prepare_network_analysis ::
  "('v, 'g) collab \<Rightarrow> rules \<Rightarrow> ('v, 'i) spoint list \<Rightarrow> ('v, 'i) spoint list option \<Rightarrow>
   bool \<Rightarrow> ('v, 'g) nwa \<Rightarrow> error option \<times> ('v, 'g) nwa" where
  "nwa_prepare_network_analysis C rls origins destinations rowwise st =
     (if rowwise \<and> destinations = None then (Some TypeError, st)
      else if rowwise \<and> Some (length origins) \<noteq> map_option length destinations
      then (Some ValueError, st)
      else
        case validate_weight C (gdf (network st)) of
          Inl e \<Rightarrow> (Some e, st)
        | Inr validated \<Rightarrow>
            let st = st\<lparr>network := (network st)\<lparr>gdf := validated\<rparr>\<rparr> in
            if \<not> graph_is_up_to_date (nw_graph st \<noteq> None) (rules_have_changed rls)
               \<or> \<not> nodes_are_up_to_date C (gdf (network st))
            then
              let point_wkts = map wkt origins @
                     (case destinations of None \<Rightarrow> [] | Some ds \<Rightarrow> map wkt ds);
                  ((edges, weights, ids), st) = nwa_get_edges_and_weights C rls point_wkts st
              in case make_graph edges weights ids (as_directed C) of
                   Inl e \<Rightarrow> (Some e, st)
                 | Inr g \<Rightarrow>
                     (None, st\<lparr>nw_graph := Some (add_missing_vertices
                        (map temp_idx origins) (map_option (map temp_idx) destinations) g)\<rparr>)
            else (None, st))"

text \<open>
  The body the six analysis methods share: prepare, run the analysis proper (the
  functions \<open>_od_cost_matrix\<close>, \<open>_get_route\<close>, \<open>_get_k_routes\<close>,
  \<open>_get_route_frequencies\<close> and \<open>_service_area\<close> are not in the sources: \<open>analysis\<close>),
  work on the result (\<open>post\<close>), and then, with \<open>split_lines\<close>, call
  \<open>_unsplit_network\<close>. No statement of the methods stands in a \<open>try\<close>: an exception
  leaves the method where it is raised.
\<close>

definition nwa_call ::
  "('v, 'g) collab \<Rightarrow> rules \<Rightarrow> (('v, 'g) nwa \<Rightarrow> error + 'r) \<Rightarrow> ('r \<Rightarrow> 's) \<Rightarrow>
   ('v, 'i) spoint list \<Rightarrow> ('v, 'i) spoint list option \<Rightarrow> bool \<Rightarrow> ('v, 'g) nwa \<Rightarrow>
   (error + 's) \<times> ('v, 'g) nwa" where
  "nwa_call C rls analysis post origins destinations rowwise st =
     (case nwa_prepare_network_analysis C rls origins destinations rowwise st of
        (Some e, st) \<Rightarrow> (Inl e, st)
      | (None, st) \<Rightarrow>
          (case analysis st of
             Inl e \<Rightarrow> (Inl e, st)
           | Inr results \<Rightarrow>
               let results = post results in
               if split_lines rls
               then (case nwa_unsplit_network (network st) of
                       Inl e \<Rightarrow> (Inl e, st)
                     | Inr unsplit \<Rightarrow> (Inr results, st\<lparr>network := unsplit\<rparr>))
               else (Inr results, st)))"

text \<open>
  Modelled from the spec: the dictionary \<open>idx_dict\<close> of the point classes \<open>Origins\<close> and
  \<open>Destinations\<close>, which are not in the sources. The spec has the temp ids mapped back
  to the caller's original point-table index: the dictionary takes a point's temp id to
  its label in the caller's table.
\<close>

definition idx_dict :: "('v, 'i) spoint list \<Rightarrow> 'v \<Rightarrow> 'i option" where
  "idx_dict points = map_of (map (\<lambda>p. (temp_idx p, idx p)) points)"

text \<open>
  A row of a cost or route table: origin, destination and the other columns. pandas'
  \<open>Series.map\<close> with a dictionary gives NaN (\<open>None\<close>) for a value that is no key.
\<close>

record ('o, 'x) route_row =
  res_origin :: 'o
  res_destination :: 'o
  res_columns :: 'x

definition map_ids ::
  "('v, 'i) spoint list \<Rightarrow> ('v, 'i) spoint list \<Rightarrow> ('v, 'x) route_row list \<Rightarrow>
   ('i option, 'x) route_row list" where
  "map_ids origins destinations results =
     map (\<lambda>r. \<lparr>res_origin = idx_dict origins (res_origin r),
               res_destination = idx_dict destinations (res_destination r),
               res_columns = res_columns r\<rparr>) results"

definition nwa_od_cost_matrix ::
  "('v, 'g) collab \<Rightarrow> rules \<Rightarrow> (('v, 'g) nwa \<Rightarrow> error + ('v, 'x) route_row list) \<Rightarrow>
   ('v, 'i) spoint list \<Rightarrow> ('v, 'i) spoint list \<Rightarrow> bool \<Rightarrow> ('v, 'g) nwa \<Rightarrow>
   (error + ('i option, 'x) route_row list) \<times> ('v, 'g) nwa" where
  "nwa_od_cost_matrix C rls od_cost_matrix_kernel origins destinations rowwise st =
     nwa_call C rls od_cost_matrix_kernel (map_ids origins destinations)
       origins (Some destinations) rowwise st"

definition nwa_get_route ::
  "('v, 'g) collab \<Rightarrow> rules \<Rightarrow> (('v, 'g) nwa \<Rightarrow> error + ('v, 'x) route_row list) \<Rightarrow>
   ('v, 'i) spoint list \<Rightarrow> ('v, 'i) spoint list \<Rightarrow> bool \<Rightarrow> ('v, 'g) nwa \<Rightarrow>
   (error + ('i option, 'x) route_row list) \<times> ('v, 'g) nwa" where
  "nwa_get_route C rls get_route_kernel origins destinations rowwise st =
     nwa_call C rls get_route_kernel (map_ids origins destinations)
       origins (Some destinations) rowwise st"

definition nwa_get_k_routes ::
  "('v, 'g) collab \<Rightarrow> rules \<Rightarrow> (('v, 'g) nwa \<Rightarrow> error + ('v, 'x) route_row list) \<Rightarrow>
   ('v, 'i) spoint list \<Rightarrow> ('v, 'i) spoint list \<Rightarrow> bool \<Rightarrow> ('v, 'g) nwa \<Rightarrow>
   (error + ('i option, 'x) route_row list) \<times> ('v, 'g) nwa" where
  "nwa_get_k_routes C rls get_k_routes_kernel origins destinations rowwise st =
     nwa_call C rls get_k_routes_kernel (map_ids origins destinations)
       origins (Some destinations) rowwise st"

text \<open>
  \<open>get_route_frequencies\<close> prepares the weight table first (\<open>_prepare_weight_df\<close>, which
  can raise before anything else happens) and maps no ids: its result has one row per
  line.
\<close>

definition nwa_get_route_frequencies ::
  "('v, 'g) collab \<Rightarrow> rules \<Rightarrow> error option \<Rightarrow> (('v, 'g) nwa \<Rightarrow> error + 'r) \<Rightarrow>
   ('v, 'i) spoint list \<Rightarrow> ('v, 'i) spoint list \<Rightarrow> bool \<Rightarrow> ('v, 'g) nwa \<Rightarrow>
   (error + 'r) \<times> ('v, 'g) nwa" where
  "nwa_get_route_frequencies C rls weight_df_error get_route_frequencies_kernel
     origins destinations rowwise st =
     (case weight_df_error of
        Some e \<Rightarrow> (Inl e, st)
      | None \<Rightarrow> nwa_call C rls get_route_frequencies_kernel (\<lambda>results. results)
                  origins (Some destinations) rowwise st)"

text \<open>
  The service areas. A row of the table that \<open>_service_area\<close> returns: the origin, the
  break (the weight column), the edge id \<open>source_target_weight\<close> and the geometry; NaN is
  \<open>None\<close>. In the result of the method the origin column holds a temp id, a label of
  the caller's table, or NaN.
\<close>

datatype ('v, 'i) id_cell = Temp 'v | Index 'i | NaN_id

record ('o, 'g) sa_row =
  sa_origin :: 'o
  sa_break :: "rat option"
  sa_edge :: "string option"
  sa_geometry :: "'g option"

text \<open>
  \<open>dissolve(by=["origin", weight]).loc[:, ["geometry"]]\<close> and \<open>reset_index\<close>: one row
  per group, the groups in the order of their keys, a NaN key in no group; the union of
  the geometries is the geometry kernel's (\<open>unary_union\<close>).
\<close>

definition dissolve_rows ::
  "('g option list \<Rightarrow> 'g option) \<Rightarrow> ('v::linorder, 'g) sa_row list \<Rightarrow> ('v, 'g) sa_row list" where
  "dissolve_rows unary_union rows =
     map (\<lambda>(ori, b).
            \<lparr>sa_origin = ori, sa_break = Some b, sa_edge = None,
             sa_geometry = unary_union (map sa_geometry
                (filter (\<lambda>r. sa_origin r = ori \<and> sa_break r = Some b) rows))\<rparr>)
         (sort (remdups (concat (map (\<lambda>r. case sa_break r of
                                            None \<Rightarrow> [] | Some b \<Rightarrow> [(sa_origin r, b)]) rows))))"

definition missing_rows ::
  "('v, 'i) spoint list \<Rightarrow> ('v, 'g) sa_row list \<Rightarrow> ('v, 'g) sa_row list" where
  "missing_rows origins results =
     map (\<lambda>p. \<lparr>sa_origin = temp_idx p, sa_break = None, sa_edge = None, sa_geometry = None\<rparr>)
         (filter (\<lambda>p. temp_idx p \<notin> set (map sa_origin results)) origins)"

definition map_origin ::
  "('v \<Rightarrow> ('v, 'i) id_cell) \<Rightarrow> ('v, 'g) sa_row \<Rightarrow> (('v, 'i) id_cell, 'g) sa_row" where
  "map_origin f r =
     \<lparr>sa_origin = f (sa_origin r), sa_break = sa_break r, sa_edge = sa_edge r,
      sa_geometry = sa_geometry r\<rparr>"

definition lookup_idx :: "('v \<Rightarrow> 'i option) \<Rightarrow> 'v \<Rightarrow> ('v, 'i) id_cell" where
  "lookup_idx d v = (case d v of None \<Rightarrow> NaN_id | Some i \<Rightarrow> Index i)"

text \<open>
  Lines 1009 to 1030 of \<open>service_area\<close>: everything, the mapping of the origin column
  too, happens only when some geometry of the result is not NaN.
\<close>

definition service_area_results ::
  "('g option list \<Rightarrow> 'g option) \<Rightarrow> bool \<Rightarrow> ('v::linorder, 'i) spoint list \<Rightarrow>
   ('v, 'g) sa_row list \<Rightarrow> (('v, 'i) id_cell, 'g) sa_row list" where
  "service_area_results unary_union dissolve origins results =
     (if \<not> list_all (\<lambda>r. sa_geometry r = None) results
      then
        let results = drop_duplicates (\<lambda>r. (sa_edge r, sa_origin r)) results;
            results = (if dissolve then dissolve_rows unary_union results else results);
            results = results @ missing_rows origins results
        in map (map_origin (lookup_idx (idx_dict origins))) results
      else map (map_origin Temp) results)"

definition sort_breaks :: "rat list \<Rightarrow> rat list" where
  "sort_breaks breaks = sort breaks"

definition nwa_service_area ::
  "('v::linorder, 'g) collab \<Rightarrow> rules \<Rightarrow>
   (rat list \<Rightarrow> ('v, 'g) nwa \<Rightarrow> error + ('v, 'g) sa_row list) \<Rightarrow>
   ('g option list \<Rightarrow> 'g option) \<Rightarrow> ('v, 'i) spoint list \<Rightarrow> rat list \<Rightarrow> bool \<Rightarrow>
   ('v, 'g) nwa \<Rightarrow> (error + (('v, 'i) id_cell, 'g) sa_row list) \<times> ('v, 'g) nwa" where
  "nwa_service_area C rls service_area_kernel unary_union origins breaks dissolve st =
     nwa_call C rls (service_area_kernel (sort_breaks breaks))
       (service_area_results unary_union dissolve origins) origins None False st"

text \<open>
  \<open>precice_service_area\<close> is the same with the other kernel, but drops the origin column
  right after mapping it; a dropped column reads as NaN here.
\<close>

definition precice_service_area_results ::
  "('g option list \<Rightarrow> 'g option) \<Rightarrow> bool \<Rightarrow> ('v::linorder, 'i) spoint list \<Rightarrow>
   ('v, 'g) sa_row list \<Rightarrow> (('v, 'i) id_cell, 'g) sa_row list" where
  "precice_service_area_results unary_union dissolve origins results =
     (if \<not> list_all (\<lambda>r. sa_geometry r = None) results
      then map (\<lambda>r. r\<lparr>sa_origin := NaN_id\<rparr>)
             (service_area_results unary_union dissolve origins results)
      else map (map_origin Temp) results)"

definition nwa_precice_service_area ::
  "('v::linorder, 'g) collab \<Rightarrow> rules \<Rightarrow>
   (rat list \<Rightarrow> ('v, 'g) nwa \<Rightarrow> error + ('v, 'g) sa_row list) \<Rightarrow>
   ('g option list \<Rightarrow> 'g option) \<Rightarrow> ('v, 'i) spoint list \<Rightarrow> rat list \<Rightarrow> bool \<Rightarrow>
   ('v, 'g) nwa \<Rightarrow> (error + (('v, 'i) id_cell, 'g) sa_row list) \<times> ('v, 'g) nwa" where
  "nwa_precice_service_area C rls precice_kernel unary_union origins breaks dissolve st =
     nwa_call C rls (precice_kernel (sort_breaks breaks))
       (precice_service_area_results unary_union dissolve origins) origins None False st"

text \<open>
  An example: a network of two lines, the first of which has a point within the
  tolerance and is cut in two.
\<close>

definition ex_collab :: "(nat, (int \<times> int) list) collab" where
  "ex_collab =
     \<lparr>validate_weight = Inr, geom_length = (\<lambda>g. Fin (of_nat (length g))),
      cut_at = (\<lambda>pts tol g. if g = [(0, 0), (2, 0)] \<and> pts \<noteq> []
                  then Some ([(0, 0), (1, 0)], [[(1, 0), (2, 0)]]) else None),
      rescale = (\<lambda>w l m. w),
      edges_and_weights = (\<lambda>ls. (map (\<lambda>i. (i, Suc i)) [0..<length ls], map weight ls,
                                  map (\<lambda>l. ''edge'') ls)),
      nodes_are_up_to_date = (\<lambda>ls. True),
      as_directed = False\<rparr>"

definition ex_network :: "(int \<times> int) list network" where
  "ex_network =
     \<lparr>gdf = [\<lparr>geometry = [(0, 0), (2, 0)], weight = Fin 2, meters_col = None,
               temp_idx_col = None, splitted = NaN\<rparr>,
             \<lparr>geometry = [(2, 0), (2, 5)], weight = Fin 5, meters_col = None,
               temp_idx_col = None, splitted = NaN\<rparr>],
      not_splitted = None\<rparr>"

definition ex_nwa :: "(nat, (int \<times> int) list) nwa" where
  "ex_nwa = \<lparr>network = ex_network, nw_graph = None\<rparr>"

definition ex_rules :: rules where
  "ex_rules = \<lparr>split_lines = True, search_tolerance = Fin 250, rules_have_changed = False\<rparr>"

definition ex_origins :: "(nat, nat) spoint list" where
  "ex_origins = [\<lparr>temp_idx = 100, wkt = ''POINT (1 0)'', idx = 0\<rparr>]"

definition ex_destinations :: "(nat, nat) spoint list" where
  "ex_destinations = [\<lparr>temp_idx = 101, wkt = ''POINT (9 9)'', idx = 0\<rparr>]"

text \<open>
  An example for the service areas: two origins, the second of which reaches nothing and
  has no row in the table of \<open>_service_area\<close>; the first reaches one line within break
  5 and two within break 10.
\<close>

definition ex_sa_origins :: "(nat, nat) spoint list" where
  "ex_sa_origins =
     [\<lparr>temp_idx = 100, wkt = ''POINT (1 0)'', idx = 0\<rparr>,
      \<lparr>temp_idx = 101, wkt = ''POINT (9 9)'', idx = 1\<rparr>]"

definition ex_union :: "(int \<times> int) list option list \<Rightarrow> (int \<times> int) list option" where
  "ex_union gs = Some (concat (map (\<lambda>g. case g of None \<Rightarrow> [] | Some c \<Rightarrow> c) gs))"

definition ex_sa_results :: "(nat, (int \<times> int) list) sa_row list" where
  "ex_sa_results =
     [\<lparr>sa_origin = 100, sa_break = Some 5, sa_edge = Some ''0_1_2'',
       sa_geometry = Some [(0, 0), (2, 0)]\<rparr>,
      \<lparr>sa_origin = 100, sa_break = Some 10, sa_edge = Some ''0_1_2'',
       sa_geometry = Some [(0, 0), (2, 0)]\<rparr>,
      \<lparr>sa_origin = 100, sa_break = Some 10, sa_edge = Some ''1_2_5'',
       sa_geometry = Some [(2, 0), (2, 5)]\<rparr>]"

section \<open>The directed network: \<open>gis_utils.DirectedNetwork.make_directed_network\<close>\<close>

text \<open>
  A cell of an attribute column is a string or a number. A row of the line table has its
  index label, its geometry, a line string as the list of its coordinates, so that
  shapely's \<open>reverse\<close> is \<open>rev\<close>, and its cells by column name; a name without a
  cell reads as NaN. The table has its column names, its rows (\<open>frame_rows\<close>), and
  the unit of its coordinate reference system, if it has one.
\<close>

datatype cell = Str string | Flt flt

record 'c drow =
  dn_index :: nat
  dn_geometry :: "'c list"
  dn_cells :: "(string \<times> cell) list"

record 'c frame =
  columns :: "string list"
  frame_rows :: "'c drow list"
  crs_unit :: "string option"

text \<open>
  The argument \<open>minute_cols\<close>: \<open>None\<close>, one column name, or a tuple or list of names.
\<close>

datatype minute_cols = MNone | MStr string | MTuple "string list"

text \<open>
  The numeric kernel, as parameters: the length of a geometry, pandas' \<open>astype(float)\<close>
  on a cell (\<open>None\<close> where it raises ValueError), and the floating-point expression
  \<open>length / speed * 16.6666666667\<close>.
\<close>

record 'c numeric =
  line_length :: "'c list \<Rightarrow> flt"
  as_float :: "cell \<Rightarrow> flt option"
  speed_to_minutes :: "flt \<Rightarrow> flt \<Rightarrow> flt"

definition cell_of :: "'c drow \<Rightarrow> string \<Rightarrow> cell option" where
  "cell_of r c = map_of (dn_cells r) c"

text \<open>Python's truth values of the optional arguments.\<close>

fun bool_minute_cols :: "minute_cols \<Rightarrow> bool" where
  "bool_minute_cols MNone = False"
| "bool_minute_cols (MStr s) = (s \<noteq> [])"
| "bool_minute_cols (MTuple l) = (l \<noteq> [])"

definition bool_str :: "string option \<Rightarrow> bool" where
  "bool_str s = (case s of None \<Rightarrow> False | Some x \<Rightarrow> x \<noteq> [])"

text \<open>
  Lines 154 to 164: the two minute columns. The test \<open>len(minute_cols) > 2\<close> and the
  unpacking at length 2 treat a string as the sequence of its characters; a tuple of one
  name leaves \<open>min_f\<close> and \<open>min_t\<close> unassigned, and their first use raises
  UnboundLocalError.
\<close>

fun minute_col_names :: "minute_cols \<Rightarrow> error + string \<times> string" where
  "minute_col_names (MStr s) =
     (if length s > 2 then Inl ValueError
      else if length s = 2 then Inr ([s ! 0], [s ! 1])
      else Inr (s, s))"
| "minute_col_names (MTuple l) =
     (if length l > 2 then Inl ValueError
      else if length l = 2 then Inr (l ! 0, l ! 1)
      else Inl UnboundLocalError)"
| "minute_col_names MNone = Inl UnboundLocalError"

text \<open>\<open>drop(c, axis=1, errors="ignore")\<close> and \<open>rename(columns={old: new})\<close>.\<close>

definition drop_cells :: "string \<Rightarrow> 'c drow \<Rightarrow> 'c drow" where
  "drop_cells c r = r\<lparr>dn_cells := filter (\<lambda>(k, v). k \<noteq> c) (dn_cells r)\<rparr>"

definition drop_column :: "string \<Rightarrow> 'c frame \<Rightarrow> 'c frame" where
  "drop_column c df =
     df\<lparr>columns := filter (\<lambda>x. x \<noteq> c) (columns df),
        frame_rows := map (drop_cells c) (frame_rows df)\<rparr>"

definition rename_cells :: "string \<Rightarrow> string \<Rightarrow> 'c drow \<Rightarrow> 'c drow" where
  "rename_cells old new r =
     r\<lparr>dn_cells := map (\<lambda>(k, v). (if k = old then new else k, v)) (dn_cells r)\<rparr>"

definition rename_column :: "string \<Rightarrow> string \<Rightarrow> 'c frame \<Rightarrow> 'c frame" where
  "rename_column old new df =
     df\<lparr>columns := map (\<lambda>x. if x = old then new else x) (columns df),
        frame_rows := map (rename_cells old new) (frame_rows df)\<rparr>"

definition select_rows :: "('c drow \<Rightarrow> bool) \<Rightarrow> 'c frame \<Rightarrow> 'c frame" where
  "select_rows P df = df\<lparr>frame_rows := filter P (frame_rows df)\<rparr>"

definition reverse_row :: "'c drow \<Rightarrow> 'c drow" where
  "reverse_row r = r\<lparr>dn_geometry := rev (dn_geometry r)\<rparr>"

definition reverse_geometry :: "'c frame \<Rightarrow> 'c frame" where
  "reverse_geometry df = df\<lparr>frame_rows := map reverse_row (frame_rows df)\<rparr>"

text \<open>
  Modelled from the spec: \<open>gdf_concat\<close> of \<open>gis_utils.geopandas_utils\<close>, which is not
  in the sources. The spec has both copies of a two-way row retained in the output and
  names concatenation as the tabular engine's: the rows of the tables one after the
  other, under the columns of all of them, with the unit of the first. The rows keep
  the index labels they have.
\<close>

definition gdf_concat :: "'c frame list \<Rightarrow> 'c frame" where
  "gdf_concat dfs =
     \<lparr>columns = rev (remdups (rev (concat (map columns dfs)))),
      frame_rows = concat (map frame_rows dfs),
      crs_unit = (case dfs of [] \<Rightarrow> None | df # _ \<Rightarrow> crs_unit df)\<rparr>"

text \<open>Lines 146 to 177: the four parts and their concatenation.\<close>

definition directed_parts ::
  "string \<Rightarrow> string \<Rightarrow> string \<Rightarrow> string \<Rightarrow> (string \<times> string) option \<Rightarrow> bool \<Rightarrow>
   'c frame \<Rightarrow> 'c frame" where
  "directed_parts direction_col b f t minute_names reverse_tofrom df =
     (let ft = select_rows (\<lambda>r. cell_of r direction_col = Some (Str f)) df;
          tf = select_rows (\<lambda>r. cell_of r direction_col = Some (Str t)) df;
          both_ways = select_rows (\<lambda>r. cell_of r direction_col = Some (Str b)) df;
          both_ways2 = both_ways;
          (both_ways, both_ways2, ft, tf) =
            (case minute_names of
               None \<Rightarrow> (both_ways, both_ways2, ft, tf)
             | Some (min_f, min_t) \<Rightarrow>
                 (rename_column min_f ''minutes'' both_ways,
                  rename_column min_t ''minutes'' both_ways2,
                  rename_column min_f ''minutes'' ft,
                  rename_column min_t ''minutes'' tf));
          both_ways2 = reverse_geometry both_ways2;
          tf = (if reverse_tofrom then reverse_geometry tf else tf)
      in gdf_concat [both_ways, both_ways2, ft, tf])"

text \<open>The two renamings of \<open>directed_parts\<close>, on one row.\<close>

definition minute_renames ::
  "(string \<times> string) option \<Rightarrow> ('c drow \<Rightarrow> 'c drow) \<times> ('c drow \<Rightarrow> 'c drow)" where
  "minute_renames mn =
     (case mn of None \<Rightarrow> (\<lambda>r. r, \<lambda>r. r)
      | Some (min_f, min_t) \<Rightarrow> (rename_cells min_f ''minutes'', rename_cells min_t ''minutes''))"

text \<open>
  Lines 186 to 208: the minutes from a speed column or from a flat speed. A speed that
  is NaN or 0 is replaced by the default speed, or, without one, makes the call fail
  when more than 5 percent of the rows have one.
\<close>

fun bool_cell :: "cell option \<Rightarrow> bool" where
  "bool_cell None = False"
| "bool_cell (Some (Str s)) = (s \<noteq> [])"
| "bool_cell (Some (Flt x)) = (x \<noteq> Fin 0)"

definition bad_speed :: "cell option \<Rightarrow> bool" where
  "bad_speed c = (c = None \<or> c = Some (Flt NaN) \<or> c = Some (Flt (Fin 0)))"

definition set_cell :: "string \<Rightarrow> cell \<Rightarrow> 'c drow \<Rightarrow> 'c drow" where
  "set_cell c v r = r\<lparr>dn_cells := filter (\<lambda>(k, x). k \<noteq> c) (dn_cells r) @ [(c, v)]\<rparr>"

definition add_column :: "string \<Rightarrow> 'c frame \<Rightarrow> 'c frame" where
  "add_column c df = (if c \<in> set (columns df) then df else df\<lparr>columns := columns df @ [c]\<rparr>)"

definition fill_speed :: "string \<Rightarrow> cell option \<Rightarrow> 'c drow \<Rightarrow> 'c drow" where
  "fill_speed speed_col default_speed r =
     (if bad_speed (cell_of r speed_col)
      then set_cell speed_col (case default_speed of None \<Rightarrow> Flt NaN | Some d \<Rightarrow> d) r
      else r)"

definition speed_minutes :: "'c numeric \<Rightarrow> string \<Rightarrow> 'c drow \<Rightarrow> 'c drow" where
  "speed_minutes K speed_col r =
     set_cell ''minutes''
       (Flt (speed_to_minutes K (line_length K (dn_geometry r))
          (case cell_of r speed_col of
             None \<Rightarrow> NaN
           | Some c \<Rightarrow> (case as_float K c of None \<Rightarrow> NaN | Some x \<Rightarrow> x)))) r"

definition flat_minutes :: "'c numeric \<Rightarrow> rat \<Rightarrow> 'c drow \<Rightarrow> 'c drow" where
  "flat_minutes K flat_speed r =
     set_cell ''minutes''
       (Flt (speed_to_minutes K (line_length K (dn_geometry r)) (Fin flat_speed))) r"

definition minutes_from_speed_col ::
  "'c numeric \<Rightarrow> string \<Rightarrow> cell option \<Rightarrow> 'c frame \<Rightarrow> error + 'c frame" where
  "minutes_from_speed_col K speed_col default_speed df =
     (if speed_col \<notin> set (columns df) then Inl KeyError
      else
        let filled =
              (if bool_cell default_speed
               then Inr (map (fill_speed speed_col default_speed) (frame_rows df))
               else if 20 * length (filter (\<lambda>r. bad_speed (cell_of r speed_col)) (frame_rows df))
                         > length (frame_rows df)
               then Inl ValueError else Inr (frame_rows df))
        in case filled of
             Inl e \<Rightarrow> Inl e
           | Inr rs \<Rightarrow>
               if list_ex (\<lambda>r. case cell_of r speed_col of
                                   None \<Rightarrow> False | Some c \<Rightarrow> as_float K c = None) rs
               then Inl ValueError
               else Inr ((add_column ''minutes'' df)\<lparr>frame_rows :=
                      map (speed_minutes K speed_col) rs\<rparr>))"

definition minutes_from_flat_speed :: "'c numeric \<Rightarrow> rat \<Rightarrow> 'c frame \<Rightarrow> 'c frame" where
  "minutes_from_flat_speed K flat_speed df =
     (add_column ''minutes'' df)\<lparr>frame_rows := map (flat_minutes K flat_speed) (frame_rows df)\<rparr>"

text \<open>
  Lines 210 and 211: with a minutes column, the rows whose minutes are at least 0 stay;
  NaN is not at least 0. Comparing a string with 0 raises TypeError.
\<close>

definition minutes_at_least_0 :: "'c drow \<Rightarrow> bool" where
  "minutes_at_least_0 r =
     (case cell_of r ''minutes'' of Some (Flt x) \<Rightarrow> flt_ge x (Fin 0) | _ \<Rightarrow> False)"

definition drop_negative_minutes :: "'c frame \<Rightarrow> error + 'c frame" where
  "drop_negative_minutes df =
     (if ''minutes'' \<in> set (columns df)
      then if list_ex (\<lambda>r. case cell_of r ''minutes'' of Some (Str s) \<Rightarrow> True | _ \<Rightarrow> False)
                 (frame_rows df)
           then Inl TypeError
           else Inr (select_rows minutes_at_least_0 df)
      else Inr df)"

text \<open>
  The method. It returns the table that \<open>self.gdf\<close> ends as; the node ids and the
  share of two-way lines, which it computes last with methods that are not in the
  sources, are left out. The check of line 132 applies \<open>all\<close> to a table, and
  iterating a table gives its column names: the check asks whether every column name is
  a non-empty string, the geometry column's, which is not among \<open>columns\<close>, included.
  Line 149 reads the direction column again, after a column \<open>minutes\<close> was dropped.
\<close>

definition make_directed_network ::
  "'c numeric \<Rightarrow> string \<Rightarrow> string list \<Rightarrow> minute_cols \<Rightarrow> string option \<Rightarrow> cell option \<Rightarrow>
   rat option \<Rightarrow> bool \<Rightarrow> 'c frame \<Rightarrow> error + 'c frame" where
  "make_directed_network K direction_col direction_vals_bft minute_cols speed_col
     default_speed flat_speed reverse_tofrom df =
     (if length direction_vals_bft \<noteq> 3 then Inl ValueError
      else if length (filter (\<lambda>x. x)
                 [bool_minute_cols minute_cols, bool_str speed_col, truthy flat_speed]) > 1
      then Inl ValueError
      else
        let b = direction_vals_bft ! 0; f = direction_vals_bft ! 1; t = direction_vals_bft ! 2 in
        if direction_col \<notin> set (columns df) then Inl KeyError
        else if \<not> list_all (\<lambda>c. c \<noteq> []) (columns df) then Inl ValueError
        else
          let df = (if bool_minute_cols minute_cols then drop_column ''minutes'' df else df) in
          if direction_col \<notin> set (columns df) then Inl KeyError
          else
          case (if bool_minute_cols minute_cols
                then map_sum (\<lambda>e. e) Some (minute_col_names minute_cols)
                else Inr None) of
            Inl e \<Rightarrow> Inl e
          | Inr minute_names \<Rightarrow>
              let df = directed_parts direction_col b f t minute_names reverse_tofrom df in
              case crs_unit df of
                None \<Rightarrow> Inl AttributeError
              | Some u \<Rightarrow>
                  if (truthy flat_speed \<or> bool_str speed_col) \<and> u \<noteq> ''metre''
                  then Inl ValueError
                  else
                    case (if bool_str speed_col
                          then minutes_from_speed_col K (case speed_col of None \<Rightarrow> [] | Some c \<Rightarrow> c) default_speed df
                          else Inr df) of
                      Inl e \<Rightarrow> Inl e
                    | Inr df \<Rightarrow>
                        let df = (case flat_speed of
                                     None \<Rightarrow> df
                                   | Some v \<Rightarrow> if v = 0 then df
                                              else minutes_from_flat_speed K v df)
                        in drop_negative_minutes df)"

text \<open>
  The same lines on one row. \<open>minute_names\<close> is the pair of minute columns of a call
  that got past lines 154 to 164, and \<open>row_minutes\<close> are lines 186 to 208. The copy
  of an input row for one direction goes through them in the order of the method: the
  column \<open>minutes\<close> is dropped when minute columns are given, the minute column of
  the direction is renamed, the geometry is reversed or not, and the minutes are
  computed from the speed.
\<close>

definition minute_names :: "minute_cols \<Rightarrow> (string \<times> string) option" where
  "minute_names minute_cols =
     (if bool_minute_cols minute_cols
      then (case minute_col_names minute_cols of Inl e \<Rightarrow> None | Inr names \<Rightarrow> Some names)
      else None)"

definition row_minutes ::
  "'c numeric \<Rightarrow> string option \<Rightarrow> cell option \<Rightarrow> rat option \<Rightarrow> 'c drow \<Rightarrow> 'c drow" where
  "row_minutes K speed_col default_speed flat_speed r =
     (let r = (case speed_col of
                 None \<Rightarrow> r
               | Some c \<Rightarrow>
                   if c = [] then r
                   else speed_minutes K c
                          (if bool_cell default_speed then fill_speed c default_speed r else r))
      in case flat_speed of
           None \<Rightarrow> r
         | Some v \<Rightarrow> if v = 0 then r else flat_minutes K v r)"

definition directed_copy ::
  "'c numeric \<Rightarrow> minute_cols \<Rightarrow> string option \<Rightarrow> cell option \<Rightarrow> rat option \<Rightarrow>
   bool \<Rightarrow> bool \<Rightarrow> 'c drow \<Rightarrow> 'c drow" where
  "directed_copy K minute_cols speed_col default_speed flat_speed backward reversed r =
     (let r = (if bool_minute_cols minute_cols then drop_cells ''minutes'' r else r);
          r = (if backward then snd (minute_renames (minute_names minute_cols)) r
               else fst (minute_renames (minute_names minute_cols)) r);
          r = (if reversed then reverse_row r else r)
      in row_minutes K speed_col default_speed flat_speed r)"

text \<open>
  An example: four lines, coded both ways, forward, backward and with a code that is none
  of the three, with a drive time for each direction.
\<close>

definition ex_numeric :: "(int \<times> int) numeric" where
  "ex_numeric =
     \<lparr>line_length = (\<lambda>g. Fin (of_nat (length g))),
      as_float = (\<lambda>c. case c of Flt x \<Rightarrow> Some x | Str s \<Rightarrow> None),
      speed_to_minutes = (\<lambda>len speed. len)\<rparr>"

definition ex_roads :: "(int \<times> int) frame" where
  "ex_roads =
     \<lparr>columns = [''oneway'', ''drivetime_fw'', ''drivetime_bw''],
      frame_rows =
        [\<lparr>dn_index = 0, dn_geometry = [(0, 0), (1, 0)],
          dn_cells = [(''oneway'', Str ''B''), (''drivetime_fw'', Flt (Fin 1)),
                      (''drivetime_bw'', Flt (Fin 2))]\<rparr>,
         \<lparr>dn_index = 1, dn_geometry = [(1, 0), (1, 1)],
          dn_cells = [(''oneway'', Str ''FT''), (''drivetime_fw'', Flt (Fin 3)),
                      (''drivetime_bw'', Flt (Fin (-1)))]\<rparr>,
         \<lparr>dn_index = 2, dn_geometry = [(1, 1), (2, 1)],
          dn_cells = [(''oneway'', Str ''TF''), (''drivetime_fw'', Flt (Fin (-1))),
                      (''drivetime_bw'', Flt (Fin 4))]\<rparr>,
         \<lparr>dn_index = 3, dn_geometry = [(2, 1), (2, 2)],
          dn_cells = [(''oneway'', Str ''X''), (''drivetime_fw'', Flt (Fin 5)),
                      (''drivetime_bw'', Flt (Fin 5))]\<rparr>],
      crs_unit = Some ''metre''\<rparr>"

section \<open>Properties of the graph construction\<close>

lemma flt_less_trans_ge: "flt_less a b \<Longrightarrow> \<not> flt_less c b \<Longrightarrow> c \<noteq> NaN \<Longrightarrow> flt_less a c"
  by (cases a; cases b; cases c) auto

lemma flt_less_NaN_right [simp]: "flt_less a NaN = False"
  by (cases a) auto

lemma flt_less_asym: "flt_less a b \<Longrightarrow> \<not> flt_less b a"
  by (cases a; cases b) auto

lemma flt_less_irrefl: "\<not> flt_less a a"
  by (cases a) auto

lemma flt_less_not_NaN: "flt_less a b \<Longrightarrow> a \<noteq> NaN \<and> b \<noteq> NaN"
  by (cases a; cases b) auto

lemma first_min_by_not_NaN:
  "key m \<noteq> NaN \<Longrightarrow> key (first_min_by key m xs) \<noteq> NaN"
  by (induction xs arbitrary: m) (auto dest: flt_less_not_NaN)

lemma first_min_by_NaN:
  "key m = NaN \<Longrightarrow> first_min_by key m xs = m"
  by (induction xs arbitrary: m) auto

lemma first_min_by_mem:
  "first_min_by key m xs \<in> set (m # xs)"
  by (induction xs arbitrary: m) auto

lemma first_min_by_lower:
  "key m \<noteq> NaN \<Longrightarrow> y \<in> set (m # xs) \<Longrightarrow>
   \<not> flt_less (key y) (key (first_min_by key m xs))"
proof (induction xs arbitrary: m y)
  case Nil
  then show ?case by (simp add: flt_less_irrefl)
next
  case (Cons a xs)
  let ?m' = "if flt_less (key a) (key m) then a else m"
  let ?r = "first_min_by key ?m' xs"
  have m': "key ?m' \<noteq> NaN" using Cons.prems(1) by (auto dest: flt_less_not_NaN)
  have low: "\<And>z. z \<in> set (?m' # xs) \<Longrightarrow> \<not> flt_less (key z) (key ?r)"
    using Cons.IH [OF m'] by blast
  have m'r: "\<not> flt_less (key ?m') (key ?r)" using low by simp
  have "\<not> flt_less (key m) (key ?r)"
  proof
    assume "flt_less (key m) (key ?r)"
    then show False using m'r flt_less_trans_ge [of "key m" "key ?r" "key ?m'"] m'
      by (auto split: if_splits dest: flt_less_asym)
  qed
  moreover have "\<not> flt_less (key a) (key ?r)"
  proof
    assume "flt_less (key a) (key ?r)"
    then show False using m'r m' flt_less_trans_ge [of "key a" "key ?r" "key ?m'"]
      by (auto split: if_splits simp: flt_less_irrefl)
  qed
  ultimately show ?case using low Cons.prems(2) by auto
qed

lemma flt_ge_less_trans: "flt_ge m (Fin 0) \<Longrightarrow> flt_less w (Fin 0) \<Longrightarrow> flt_less w m"
  by (cases m; cases w) auto

lemma flt_ge_iff: "flt_ge w (Fin 0) \<longleftrightarrow> w \<noteq> NaN \<and> \<not> flt_less w (Fin 0)"
  by (cases w) auto

lemma py_min_lower:
  "py_min ws = Inr m \<Longrightarrow> flt_ge m (Fin 0) \<Longrightarrow> w \<in> set ws \<Longrightarrow> \<not> flt_less w (Fin 0)"
proof (cases ws)
  case Nil
  then show "py_min ws = Inr m \<Longrightarrow> flt_ge m (Fin 0) \<Longrightarrow> w \<in> set ws \<Longrightarrow> \<not> flt_less w (Fin 0)" by simp
next
  case (Cons x xs)
  assume pm: "py_min ws = Inr m" and ge: "flt_ge m (Fin 0)" and w: "w \<in> set ws"
  have m: "m = first_min_by (\<lambda>w. w) x xs" using pm Cons by simp
  have x: "x \<noteq> NaN"
  proof
    assume "x = NaN"
    then have "m = NaN" unfolding m using first_min_by_NaN [of "\<lambda>w. w" x xs] by simp
    then show False using ge by simp
  qed
  have "\<not> flt_less w m"
    unfolding m using first_min_by_lower [of "\<lambda>w. w" x w xs] x w Cons by simp
  then show "\<not> flt_less w (Fin 0)" using flt_ge_less_trans [OF ge] by blast
qed

text \<open>
  Claim C9, as the code has it. A graph that \<open>_make_graph\<close> returns carries the weights
  it was given, and the minimum of its edge weights, as Python's \<open>min\<close> finds it, was
  checked to be at least 0. So none of its edge weights is negative, every weight that is
  a number is at least 0, and the first weight is a number that is at least 0. A NaN
  weight after the first position is not seen by \<open>min\<close>.
\<close>

theorem make_graph_weights_nonneg:
  assumes "make_graph edges weights edge_ids dir = Inr g"
  shows "es_weight g = weights \<and>
         (\<exists>m. py_min (es_weight g) = Inr m \<and> flt_ge m (Fin 0)) \<and>
         (\<forall>w \<in> set (es_weight g). \<not> flt_less w (Fin 0) \<and> (w \<noteq> NaN \<longrightarrow> flt_ge w (Fin 0))) \<and>
         es_weight g \<noteq> [] \<and> flt_ge (hd (es_weight g)) (Fin 0)"
proof -
  from assms have len: "length edges = length weights"
    by (auto simp: make_graph_def split: if_splits)
  from assms len obtain m where m: "py_min weights = Inr m" "flt_ge m (Fin 0)"
    and g: "es_weight g = weights"
    by (auto simp: make_graph_def Let_def split: if_splits sum.splits)
  have low: "\<not> flt_less w (Fin 0)" if "w \<in> set weights" for w
    using py_min_lower [OF m that] .
  obtain x xs where ws: "weights = x # xs" using m(1) by (cases weights) auto
  have "x \<noteq> NaN"
  proof
    assume "x = NaN"
    then have "m = NaN" using m(1) ws first_min_by_NaN [of "\<lambda>w. w" x xs] by simp
    then show False using m(2) by simp
  qed
  then have "flt_ge x (Fin 0)" using low [of x] ws by (simp add: flt_ge_iff)
  then show ?thesis using m g low ws by (auto simp: flt_ge_iff)
qed

theorem make_graph_weights_nonneg_witness:
  "make_graph [(1::nat, 2), (2, 3)] [Fin 1, Fin 2] [''a'', ''b''] True =
     Inr \<lparr>directed = True, vs_name = [1, 2, 3], es_edge_tuples = [(1, 2), (2, 3)],
          es_weight = [Fin 1, Fin 2], es_source_target_weight = [''a'', ''b''],
          es_source = [1, 2], es_target = [2, 3]\<rparr> \<and>
   \<not> flt_less (Fin 1) (Fin 0) \<and> flt_ge (Fin 2) (Fin 0)"
proof -
  have e: "make_graph [(1::nat, 2), (2, 3)] [Fin 1, Fin 2] [''a'', ''b''] True =
     Inr \<lparr>directed = True, vs_name = [1, 2, 3], es_edge_tuples = [(1, 2), (2, 3)],
          es_weight = [Fin 1, Fin 2], es_source_target_weight = [''a'', ''b''],
          es_source = [1, 2], es_target = [2, 3]\<rparr>"
    by (simp add: make_graph_def TupleList_def)
  show ?thesis using make_graph_weights_nonneg [OF e] e by simp
qed

text \<open>
  The claim as stated fails: not every edge weight of a returned graph is at least 0. With
  the weights 1 and NaN, \<open>min\<close> is 1, the assertion passes and the graph is returned
  with its NaN weight, which is not at least 0.
\<close>

theorem make_graph_later_NaN_counterexample:
  "make_graph [(1::nat, 2), (2, 3)] [Fin 1, NaN] [''a'', ''b''] True =
     Inr \<lparr>directed = True, vs_name = [1, 2, 3], es_edge_tuples = [(1, 2), (2, 3)],
          es_weight = [Fin 1, NaN], es_source_target_weight = [''a'', ''b''],
          es_source = [1, 2], es_target = [2, 3]\<rparr> \<and>
   py_min [Fin 1, NaN] = Inr (Fin 1) \<and> \<not> flt_ge NaN (Fin 0)"
  by (simp add: make_graph_def TupleList_def)

text \<open>
  The assertion at work: a negative weight is refused wherever it stands, also behind a
  NaN.
\<close>

lemma make_graph_rejects_negative:
  "make_graph [(1::nat, 2), (2, 3)] [Fin 1, Fin (-2)] [''a'', ''b''] True = Inl AssertionError"
  by (simp add: make_graph_def TupleList_def)

lemma make_graph_rejects_negative_after_NaN:
  "make_graph [(1::nat, 2), (2, 3)] [NaN, Fin (-2)] [''a'', ''b''] True = Inl AssertionError"
  by (simp add: make_graph_def TupleList_def)

section \<open>Properties of the cost matrix\<close>

lemma od_df_mem:
  "r \<in> set (od_df distances pairs) \<longleftrightarrow>
   (origin r, destination r) \<in> set pairs \<and> cost r = distances (origin r) (destination r)"
proof (cases r)
  case (fields a b c)
  then show ?thesis
    by (auto simp: od_df_def image_iff intro: bexI [where x = "(a, b)"])
qed

lemma cleanup_mem:
  "r \<in> set (cleanup df) \<longleftrightarrow>
   (\<exists>r0 \<in> set df. (flt_less (Fin 0) (cost r0) \<or> isna (cost r0)) \<and>
      r = r0\<lparr>cost := replace_inf (cost r0)\<rparr>)"
  by (auto simp: cleanup_def)

lemma apply_cutoff_subset: "set (apply_cutoff cutoff out) \<subseteq> set out"
  by (auto simp: apply_cutoff_def split: option.splits)

lemma apply_cutoff_none: "\<not> truthy cutoff \<Longrightarrow> apply_cutoff cutoff out = out"
  by (auto simp: apply_cutoff_def truthy_def split: option.splits)

lemma idxmin_mem: "idxmin g = Some r \<Longrightarrow> r \<in> set g"
proof (cases g)
  case Nil
  then show "idxmin g = Some r \<Longrightarrow> r \<in> set g" by simp
next
  case (Cons a list)
  then show "idxmin g = Some r \<Longrightarrow> r \<in> set g"
    using first_min_by_mem [of cost a list] by auto
qed

lemma idxmin_Some: "g \<noteq> [] \<Longrightarrow> \<exists>r. idxmin g = Some r"
  by (cases g) auto

lemma groupby_idxmin_subset: "set (groupby_idxmin out) \<subseteq> set out"
proof
  fix r assume "r \<in> set (groupby_idxmin out)"
  then obtain k where "idxmin (filter (\<lambda>r. origin r = k) out) = Some r"
    by (auto simp: groupby_idxmin_def split: option.splits)
  then show "r \<in> set out" using idxmin_mem by fastforce
qed

lemma apply_destination_count_subset: "set (apply_destination_count dc out) \<subseteq> set out"
  using groupby_idxmin_subset [of "filter (\<lambda>r. \<not> isna (cost r)) out"]
  by (auto simp: apply_destination_count_def)

lemma groupby_idxmin_origins:
  "map origin (groupby_idxmin out) = sort (remdups (map origin out))"
proof -
  have "\<And>k. k \<in> set (map origin out) \<Longrightarrow>
          map origin (case idxmin (filter (\<lambda>r. origin r = k) out) of None \<Rightarrow> [] | Some r \<Rightarrow> [r]) = [k]"
  proof -
    fix k assume "k \<in> set (map origin out)"
    then have ne: "filter (\<lambda>r. origin r = k) out \<noteq> []"
      by (auto simp: filter_empty_conv)
    then obtain r where r: "idxmin (filter (\<lambda>r. origin r = k) out) = Some r"
      using idxmin_Some by blast
    then have "origin r = k" using idxmin_mem [OF r] by simp
    then show "map origin (case idxmin (filter (\<lambda>r. origin r = k) out) of None \<Rightarrow> [] | Some r \<Rightarrow> [r]) = [k]"
      using r by simp
  qed
  then have "\<And>ks. set ks \<subseteq> set (map origin out) \<Longrightarrow>
     map origin (concat (map (\<lambda>k. case idxmin (filter (\<lambda>r. origin r = k) out) of
                         None \<Rightarrow> [] | Some r \<Rightarrow> [r]) ks)) = ks"
    subgoal for ks by (induction ks) auto
    done
  then show ?thesis unfolding groupby_idxmin_def by simp
qed

lemma candidates_mem:
  "r \<in> set (filter (\<lambda>r. \<not> isna (cost r)) (apply_cutoff cutoff (cleanup (od_df distances pairs)))) \<longleftrightarrow>
   (origin r, destination r) \<in> set pairs \<and> cost r = distances (origin r) (destination r) \<and>
   reported_cost_kept cutoff (cost r)"
proof
  assume "r \<in> set (filter (\<lambda>r. \<not> isna (cost r)) (apply_cutoff cutoff (cleanup (od_df distances pairs))))"
  then have na: "\<not> isna (cost r)" and co: "r \<in> set (apply_cutoff cutoff (cleanup (od_df distances pairs)))"
    by auto
  from co apply_cutoff_subset have "r \<in> set (cleanup (od_df distances pairs))" by blast
  then obtain r1 where r1: "r1 \<in> set (od_df distances pairs)"
      "flt_less (Fin 0) (cost r1) \<or> isna (cost r1)" "r = r1\<lparr>cost := replace_inf (cost r1)\<rparr>"
    unfolding cleanup_mem by blast
  from r1(2,3) na obtain c where c: "cost r1 = Fin c" "0 < c"
    by (cases "cost r1") (auto simp: isna_def replace_inf_def)
  then have rr: "r = r1" using r1(3) by (simp add: replace_inf_def)
  have "case cutoff of None \<Rightarrow> True | Some k \<Rightarrow> k = 0 \<or> c < k"
    using co c rr by (auto simp: apply_cutoff_def split: option.splits if_splits)
  then show "(origin r, destination r) \<in> set pairs \<and> cost r = distances (origin r) (destination r) \<and>
   reported_cost_kept cutoff (cost r)"
  proof -
    have "(origin r1, destination r1) \<in> set pairs" "cost r1 = distances (origin r1) (destination r1)"
      using r1(1) unfolding od_df_mem by simp_all
    moreover have "reported_cost_kept cutoff (cost r1)"
      using c \<open>case cutoff of None \<Rightarrow> True | Some k \<Rightarrow> k = 0 \<or> c < k\<close>
      by (simp add: reported_cost_kept_def)
    ultimately show ?thesis using rr by simp
  qed
next
  assume a: "(origin r, destination r) \<in> set pairs \<and> cost r = distances (origin r) (destination r) \<and>
   reported_cost_kept cutoff (cost r)"
  then have "reported_cost_kept cutoff (cost r)" by blast
  then obtain c where c: "cost r = Fin c" "0 < c" "case cutoff of None \<Rightarrow> True | Some k \<Rightarrow> k = 0 \<or> c < k"
    by (cases "cost r") (simp_all add: reported_cost_kept_def)
  have "r \<in> set (od_df distances pairs)" unfolding od_df_mem using a by simp
  then have "r\<lparr>cost := replace_inf (cost r)\<rparr> \<in> set (cleanup (od_df distances pairs))"
    unfolding cleanup_mem using c by (intro bexI [where x = r]) auto
  moreover have "r\<lparr>cost := replace_inf (cost r)\<rparr> = r"
    using c by (cases r) (simp add: replace_inf_def)
  ultimately have "r \<in> set (cleanup (od_df distances pairs))"
    by simp
  then have "r \<in> set (apply_cutoff cutoff (cleanup (od_df distances pairs)))"
    using c by (auto simp: apply_cutoff_def split: option.splits)
  then show "r \<in> set (filter (\<lambda>r. \<not> isna (cost r)) (apply_cutoff cutoff (cleanup (od_df distances pairs))))"
    using c by (simp add: isna_def)
qed

lemma groupby_idxmin_least:
  assumes "r \<in> set (groupby_idxmin out)" and "\<forall>x \<in> set out. cost x \<noteq> NaN"
    and "x \<in> set out" and "origin x = origin r"
  shows "\<not> flt_less (cost x) (cost r)"
proof -
  from assms(1) obtain k where k: "idxmin (filter (\<lambda>r. origin r = k) out) = Some r"
    by (auto simp: groupby_idxmin_def split: option.splits)
  then have "origin r = k" using idxmin_mem [OF k] by simp
  then have x: "x \<in> set (filter (\<lambda>r. origin r = k) out)" using assms(3,4) by simp
  obtain a list where g: "filter (\<lambda>r. origin r = k) out = a # list"
    using k by (cases "filter (\<lambda>r. origin r = k) out") auto
  have "a \<in> set (filter (\<lambda>r. origin r = k) out)" unfolding g by simp
  then have "a \<in> set out" by simp
  then have "cost a \<noteq> NaN" using assms(2) by blast
  moreover have "r = first_min_by cost a list" using k g by simp
  ultimately show ?thesis using first_min_by_lower [of cost a x list] x g by simp
qed

text \<open>
  Claim C2, as the code has it. For an OD pair whose two points have the same WKT, every
  returned row of the pair has cost exactly 0, whatever the path computation reported.
  The pair has a row only if its reported cost is positive, infinite or NaN: a reported
  cost of 0 or less removes the row before the correction. It does have the row when,
  besides, neither \<open>cutoff\<close> nor \<open>destination_count\<close> is set.
\<close>

theorem od_cost_matrix_identical_points:
  assumes "wkt_dict startpoints f = Some w" and "wkt_dict endpoints t = Some w"
  shows "(\<forall>r \<in> set (od_cost_matrix distances startpoints endpoints rowwise cutoff destination_count).
            origin r = f \<and> destination r = t \<longrightarrow> cost r = Fin 0) \<and>
         ((\<exists>r \<in> set (od_cost_matrix distances startpoints endpoints rowwise cutoff destination_count).
            origin r = f \<and> destination r = t) \<longrightarrow>
          (f, t) \<in> set (od_pairs rowwise startpoints endpoints) \<and>
          (flt_less (Fin 0) (distances f t) \<or> isna (distances f t))) \<and>
         ((f, t) \<in> set (od_pairs rowwise startpoints endpoints) \<and>
          \<not> truthy cutoff \<and> \<not> truthy destination_count \<and>
          (flt_less (Fin 0) (distances f t) \<or> isna (distances f t)) \<longrightarrow>
          \<lparr>origin = f, destination = t, cost = Fin 0\<rparr>
            \<in> set (od_cost_matrix distances startpoints endpoints rowwise cutoff destination_count))"
proof -
  let ?df = "od_df distances (od_pairs rowwise startpoints endpoints)"
  let ?out3 = "apply_destination_count destination_count (apply_cutoff cutoff (cleanup ?df))"
  have out: "od_cost_matrix distances startpoints endpoints rowwise cutoff destination_count =
             map (set_zero_if_same startpoints endpoints) ?out3"
    by (simp add: od_cost_matrix_def)
  have sub: "set ?out3 \<subseteq> set (cleanup ?df)"
    using apply_destination_count_subset apply_cutoff_subset by blast
  have zero: "set_zero_if_same startpoints endpoints r0 = r0\<lparr>cost := Fin 0\<rparr>"
    if "origin r0 = f" "destination r0 = t" for r0 :: "'a od_row"
    using that assms by (simp add: set_zero_if_same_def wkt_ne_def)
  have od: "origin (set_zero_if_same startpoints endpoints r0) = origin r0 \<and>
            destination (set_zero_if_same startpoints endpoints r0) = destination r0"
    for r0 :: "'a od_row"
    by (simp add: set_zero_if_same_def)
  have c1: "cost r = Fin 0"
    if "r \<in> set (od_cost_matrix distances startpoints endpoints rowwise cutoff destination_count)"
       "origin r = f" "destination r = t" for r
  proof -
    from that(1) obtain r0 where r0: "r0 \<in> set ?out3" "r = set_zero_if_same startpoints endpoints r0"
      unfolding out by auto
    then have "origin r0 = f" "destination r0 = t" using that(2,3) od by auto
    then show ?thesis using zero r0(2) by simp
  qed
  have c2: "(f, t) \<in> set (od_pairs rowwise startpoints endpoints) \<and>
            (flt_less (Fin 0) (distances f t) \<or> isna (distances f t))"
    if "r \<in> set (od_cost_matrix distances startpoints endpoints rowwise cutoff destination_count)"
       "origin r = f" "destination r = t" for r
  proof -
    from that(1) obtain r0 where r0: "r0 \<in> set ?out3" "r = set_zero_if_same startpoints endpoints r0"
      unfolding out by auto
    then have ft: "origin r0 = f" "destination r0 = t" using that(2,3) od by auto
    from r0(1) sub have "r0 \<in> set (cleanup ?df)" by blast
    then obtain r1 where r1: "r1 \<in> set ?df" "flt_less (Fin 0) (cost r1) \<or> isna (cost r1)"
        "r0 = r1\<lparr>cost := replace_inf (cost r1)\<rparr>"
      unfolding cleanup_mem by blast
    then have "origin r1 = f" "destination r1 = t" using ft by auto
    then show ?thesis using r1(1,2) unfolding od_df_mem by auto
  qed
  have c3: "\<lparr>origin = f, destination = t, cost = Fin 0\<rparr>
            \<in> set (od_cost_matrix distances startpoints endpoints rowwise cutoff destination_count)"
    if p: "(f, t) \<in> set (od_pairs rowwise startpoints endpoints)"
      and nc: "\<not> truthy cutoff" and nd: "\<not> truthy destination_count"
      and d: "flt_less (Fin 0) (distances f t) \<or> isna (distances f t)"
  proof -
    let ?r1 = "\<lparr>origin = f, destination = t, cost = distances f t\<rparr>"
    have "?r1 \<in> set ?df" unfolding od_df_mem using p by simp
    then have "?r1\<lparr>cost := replace_inf (cost ?r1)\<rparr> \<in> set (cleanup ?df)"
      unfolding cleanup_mem using d by (intro bexI [where x = ?r1]) auto
    moreover have "?out3 = cleanup ?df"
      using nc nd by (simp add: apply_cutoff_none apply_destination_count_def)
    ultimately have "set_zero_if_same startpoints endpoints (?r1\<lparr>cost := replace_inf (cost ?r1)\<rparr>)
        \<in> set (od_cost_matrix distances startpoints endpoints rowwise cutoff destination_count)"
      unfolding out by simp
    then show ?thesis using zero [of "?r1\<lparr>cost := replace_inf (cost ?r1)\<rparr>"] by simp
  qed
  show ?thesis using c1 c2 c3 by blast
qed

theorem od_cost_matrix_identical_points_witness:
  "\<lparr>origin = 10, destination = 12, cost = Fin 0\<rparr>
     \<in> set (od_cost_matrix ex_distances ex_startpoints ex_endpoints False None None)"
proof -
  have 1: "wkt_dict ex_startpoints 10 = Some ''POINT (0 0)''"
    by (simp add: wkt_dict_def ex_startpoints_def)
  have 2: "wkt_dict ex_endpoints 12 = Some ''POINT (0 0)''"
    by (simp add: wkt_dict_def ex_endpoints_def)
  have 3: "(10, 12) \<in> set (od_pairs False ex_startpoints ex_endpoints)"
    by (simp add: od_pairs_def ex_startpoints_def ex_endpoints_def)
  have 4: "flt_less (Fin 0) (ex_distances 10 12)" by (simp add: ex_distances_def)
  show ?thesis
    using od_cost_matrix_identical_points [OF 1 2, of ex_distances False None None] 3 4
    by (simp add: truthy_def)
qed

text \<open>
  The claim as stated fails: two identical points for which the path computation
  reports 0 give no row at all.
\<close>

theorem od_cost_matrix_identical_points_counterexample:
  "wkt \<lparr>temp_idx = 1::nat, wkt = ''POINT (0 0)''\<rparr> = wkt \<lparr>temp_idx = 2::nat, wkt = ''POINT (0 0)''\<rparr> \<and>
   od_cost_matrix (\<lambda>f t. Fin 0) [\<lparr>temp_idx = 1::nat, wkt = ''POINT (0 0)''\<rparr>]
     [\<lparr>temp_idx = 2, wkt = ''POINT (0 0)''\<rparr>] False None None = []"
  by (simp add: od_cost_matrix_def od_df_def od_pairs_def cleanup_def isna_def
      apply_cutoff_def apply_destination_count_def truthy_def)

text \<open>
  Claim C8, as the code has it. With \<open>destination_count\<close> set, the table has exactly one
  row per origin that has a destination whose reported cost is a positive number (below
  the cutoff when one is set), and the row's destination is one of least reported cost
  among these. An origin whose costs are all NaN, infinite, zero or negative has no row.
\<close>

theorem od_cost_matrix_destination_count:
  assumes "truthy destination_count"
  shows "distinct (map origin (od_cost_matrix distances startpoints endpoints rowwise cutoff destination_count)) \<and>
         set (map origin (od_cost_matrix distances startpoints endpoints rowwise cutoff destination_count)) =
           {f. \<exists>t. (f, t) \<in> set (od_pairs rowwise startpoints endpoints) \<and>
                    reported_cost_kept cutoff (distances f t)} \<and>
         length (od_cost_matrix distances startpoints endpoints rowwise cutoff destination_count) =
           card {f. \<exists>t. (f, t) \<in> set (od_pairs rowwise startpoints endpoints) \<and>
                    reported_cost_kept cutoff (distances f t)} \<and>
         (\<forall>r \<in> set (od_cost_matrix distances startpoints endpoints rowwise cutoff destination_count).
            (origin r, destination r) \<in> set (od_pairs rowwise startpoints endpoints) \<and>
            reported_cost_kept cutoff (distances (origin r) (destination r)) \<and>
            (\<forall>t. (origin r, t) \<in> set (od_pairs rowwise startpoints endpoints) \<and>
                 reported_cost_kept cutoff (distances (origin r) t) \<longrightarrow>
                 \<not> flt_less (distances (origin r) t) (distances (origin r) (destination r))))"
proof -
  let ?pairs = "od_pairs rowwise startpoints endpoints"
  let ?cand = "filter (\<lambda>r. \<not> isna (cost r)) (apply_cutoff cutoff (cleanup (od_df distances ?pairs)))"
  let ?out = "od_cost_matrix distances startpoints endpoints rowwise cutoff destination_count"
  let ?S = "{f. \<exists>t. (f, t) \<in> set ?pairs \<and> reported_cost_kept cutoff (distances f t)}"
  have out: "?out = map (set_zero_if_same startpoints endpoints) (groupby_idxmin ?cand)"
    using assms by (simp add: od_cost_matrix_def apply_destination_count_def)
  have "map origin ?out = map origin (groupby_idxmin ?cand)"
    unfolding out by (simp add: set_zero_if_same_def comp_def)
  then have origins: "map origin ?out = sort (remdups (map origin ?cand))"
    by (simp add: groupby_idxmin_origins)
  have d: "distinct (map origin ?out)" unfolding origins by simp
  have "set (map origin ?cand) = ?S"
  proof (intro set_eqI iffI)
    fix f assume "f \<in> set (map origin ?cand)"
    then obtain r where "r \<in> set ?cand" "origin r = f" by auto
    then show "f \<in> ?S" unfolding candidates_mem by auto
  next
    fix f assume "f \<in> ?S"
    then obtain t where t: "(f, t) \<in> set ?pairs" "reported_cost_kept cutoff (distances f t)" by blast
    then have "\<lparr>origin = f, destination = t, cost = distances f t\<rparr> \<in> set ?cand"
      unfolding candidates_mem by simp
    then show "f \<in> set (map origin ?cand)" by force
  qed
  then have s: "set (map origin ?out) = ?S" unfolding origins by simp
  have l: "length ?out = card ?S"
    using distinct_card [OF d] s by simp
  have m: "(origin r, destination r) \<in> set ?pairs \<and>
           reported_cost_kept cutoff (distances (origin r) (destination r)) \<and>
           (\<forall>t. (origin r, t) \<in> set ?pairs \<and> reported_cost_kept cutoff (distances (origin r) t) \<longrightarrow>
                 \<not> flt_less (distances (origin r) t) (distances (origin r) (destination r)))"
    if "r \<in> set ?out" for r
  proof -
    from that obtain r0 where r0: "r0 \<in> set (groupby_idxmin ?cand)"
        "r = set_zero_if_same startpoints endpoints r0"
      unfolding out by auto
    have od: "origin r = origin r0" "destination r = destination r0"
      using r0(2) by (simp_all add: set_zero_if_same_def)
    have r0c: "r0 \<in> set ?cand" using r0(1) groupby_idxmin_subset by blast
    then have k: "(origin r0, destination r0) \<in> set ?pairs"
        "cost r0 = distances (origin r0) (destination r0)" "reported_cost_kept cutoff (cost r0)"
      unfolding candidates_mem by auto
    have nn: "\<forall>x \<in> set ?cand. cost x \<noteq> NaN" by (auto simp: isna_def)
    have "\<not> flt_less (distances (origin r0) t) (distances (origin r0) (destination r0))"
      if t: "(origin r0, t) \<in> set ?pairs" "reported_cost_kept cutoff (distances (origin r0) t)" for t
    proof -
      let ?x = "\<lparr>origin = origin r0, destination = t, cost = distances (origin r0) t\<rparr>"
      have "?x \<in> set ?cand" unfolding candidates_mem using t by simp
      then have "\<not> flt_less (cost ?x) (cost r0)"
        using groupby_idxmin_least [OF r0(1) nn, of ?x] by simp
      then show ?thesis using k(2) by simp
    qed
    then show ?thesis using k od by simp
  qed
  show ?thesis using d s l m by blast
qed

theorem od_cost_matrix_destination_count_witness:
  "od_cost_matrix ex_distances ex_startpoints ex_endpoints False None (Some 1) =
     [\<lparr>origin = 10, destination = 13, cost = Fin 3\<rparr>] \<and>
   distinct (map origin (od_cost_matrix ex_distances ex_startpoints ex_endpoints False None (Some 1)))"
proof -
  have t: "truthy (Some (1::nat))" by (simp add: truthy_def)
  have "od_cost_matrix ex_distances ex_startpoints ex_endpoints False None (Some 1) =
     [\<lparr>origin = 10, destination = 13, cost = Fin 3\<rparr>]"
    by (simp add: od_cost_matrix_def od_df_def od_pairs_def cleanup_def isna_def
      apply_cutoff_def apply_destination_count_def truthy_def groupby_idxmin_def
      ex_distances_def ex_startpoints_def ex_endpoints_def replace_inf_def
      set_zero_if_same_def wkt_ne_def wkt_dict_def)
  then show ?thesis
    using od_cost_matrix_destination_count [OF t, of ex_distances ex_startpoints ex_endpoints False None]
    by simp
qed

text \<open>
  The claim as stated fails: an origin whose only cost is 0, which is not NaN, has no
  row under \<open>destination_count=1\<close>.
\<close>

theorem od_cost_matrix_destination_count_counterexample:
  "\<not> isna (Fin 0) \<and>
   length (od_cost_matrix (\<lambda>f t. Fin 0) [\<lparr>temp_idx = 1::nat, wkt = ''POINT (0 0)''\<rparr>]
     [\<lparr>temp_idx = 2, wkt = ''POINT (7 7)''\<rparr>] False None (Some 1)) = 0"
  by (simp add: od_cost_matrix_def od_df_def od_pairs_def cleanup_def isna_def
      apply_cutoff_def apply_destination_count_def truthy_def groupby_idxmin_def)

section \<open>Properties of the analysis calls\<close>

lemma split_unsplit_kept:
  "filter (\<lambda>l. splitted l \<noteq> Fin 1) (map (\<lambda>l. l\<lparr>weight := w l\<rparr>) (split_lines_by_nearest_point cutter xs)) =
   map (\<lambda>l. l\<lparr>weight := w l\<rparr>) (map (\<lambda>l. l\<lparr>splitted := NaN\<rparr>) (filter (\<lambda>l. cutter (geometry l) = None) xs))"
  by (induction xs) (auto simp: split_lines_by_nearest_point_def filter_map comp_def split: option.splits)

lemma split_ids:
  "set (map temp_idx_col (filter (\<lambda>l. splitted l = Fin 1) (split_lines_by_nearest_point cutter xs))) =
   temp_idx_col ` {l \<in> set xs. cutter (geometry l) \<noteq> None}"
proof (induction xs)
  case Nil
  show ?case by (simp add: split_lines_by_nearest_point_def)
next
  case (Cons a xs)
  let ?pieces = "case cutter (geometry a) of
                   None \<Rightarrow> [a\<lparr>splitted := NaN\<rparr>]
                 | Some (p, ps) \<Rightarrow> map (\<lambda>g. a\<lparr>geometry := g, splitted := Fin 1\<rparr>) (p # ps)"
  have step: "split_lines_by_nearest_point cutter (a # xs) =
              ?pieces @ split_lines_by_nearest_point cutter xs"
    by (simp add: split_lines_by_nearest_point_def)
  have here: "set (map temp_idx_col (filter (\<lambda>l. splitted l = Fin 1) ?pieces)) =
              (if cutter (geometry a) = None then {} else {temp_idx_col a})"
  proof (cases "cutter (geometry a)")
    case None
    then show ?thesis by simp
  next
    case (Some pps)
    obtain p ps where "pps = (p, ps)" by (cases pps)
    then show ?thesis using Some by (auto simp: filter_map comp_def)
  qed
  have split: "{l \<in> set (a # xs). cutter (geometry l) \<noteq> None} =
               (if cutter (geometry a) = None then {} else {a}) \<union>
               {l \<in> set xs. cutter (geometry l) \<noteq> None}"
    by (cases "cutter (geometry a)") (simp_all del: not_None_eq, blast+)
  show ?case
    unfolding step split using here Cons.IH
    by (simp only: filter_append map_append set_append image_Un) (simp del: not_None_eq)
qed

lemma unsplit_rows:
  assumes "distinct (map temp_idx_col xs)"
  shows "filter (\<lambda>l. temp_idx_col l \<in> temp_idx_col ` {l \<in> set xs. cutter (geometry l) \<noteq> None}) xs =
         filter (\<lambda>l. cutter (geometry l) \<noteq> None) xs"
proof (rule filter_cong [OF refl])
  fix l assume l: "l \<in> set xs"
  have inj: "inj_on temp_idx_col (set xs)" using assms by (simp add: distinct_map)
  show "(temp_idx_col l \<in> temp_idx_col ` {l \<in> set xs. cutter (geometry l) \<noteq> None}) =
        (cutter (geometry l) \<noteq> None)"
  proof
    assume "temp_idx_col l \<in> temp_idx_col ` {l \<in> set xs. cutter (geometry l) \<noteq> None}"
    then obtain l' where l': "l' \<in> set xs" "cutter (geometry l') \<noteq> None" "temp_idx_col l = temp_idx_col l'"
      by auto
    then have "l = l'" using inj l by (auto dest: inj_onD)
    then show "cutter (geometry l) \<noteq> None" using l' by simp
  next
    assume "cutter (geometry l) \<noteq> None"
    then show "temp_idx_col l \<in> temp_idx_col ` {l \<in> set xs. cutter (geometry l) \<noteq> None}"
      using l by blast
  qed
qed

lemma numbered_rows:
  "map geometry (map (\<lambda>(i, l). l\<lparr>meters_col := m l, temp_idx_col := Some i\<rparr>) (zip [0..<length xs] xs)) =
     map geometry xs \<and>
   map temp_idx_col (map (\<lambda>(i, l). l\<lparr>meters_col := m l, temp_idx_col := Some i\<rparr>) (zip [0..<length xs] xs)) =
     map Some [0..<length xs]"
proof -
  have len: "length [0..<length xs] = length xs" by simp
  have "map (geometry \<circ> snd) (zip [0..<length xs] xs) = map geometry xs"
    using map_snd_zip [OF len] by (metis map_map)
  moreover have "map (Some \<circ> fst) (zip [0..<length xs] xs) = map Some [0..<length xs]"
    using map_fst_zip [OF len] by (metis map_map)
  ultimately show ?thesis by (simp add: case_prod_beta comp_def)
qed

lemma filter_map_geometry:
  "map geometry (filter (\<lambda>l. P (geometry l)) xs) = filter P (map geometry xs)"
  by (induction xs) auto

lemma split_then_unsplit_rows:
  "\<exists>nw'. nwa_unsplit_network (nwa_split_lines C rls point_wkts nw) = Inr nw' \<and>
         not_splitted nw' = None \<and>
         map geometry (gdf nw') =
           filter (\<lambda>g. cut_at C (drop_duplicates (\<lambda>w. w) point_wkts) (search_tolerance rls) g = None)
             (map geometry (gdf nw)) @
           filter (\<lambda>g. cut_at C (drop_duplicates (\<lambda>w. w) point_wkts) (search_tolerance rls) g \<noteq> None)
             (map geometry (gdf nw))"
proof -
  let ?gdf1 = "map (\<lambda>(i, l). l\<lparr>meters_col := Some (geom_length C (geometry l)),
                                  temp_idx_col := Some i\<rparr>)
                     (zip [0..<length (gdf nw)] (gdf nw))"
  let ?cut = "cut_at C (drop_duplicates (\<lambda>w. w) point_wkts) (search_tolerance rls)"
  let ?w = "\<lambda>l. rescale C (weight l) (geom_length C (geometry l))
                       (case meters_col l of None \<Rightarrow> NaN | Some m \<Rightarrow> m)"
  let ?lines = "split_lines_by_nearest_point ?cut ?gdf1"
  let ?ids = "map temp_idx_col (filter (\<lambda>l. splitted l = Fin 1) ?lines)"
  let ?unsplit = "filter (\<lambda>l. temp_idx_col l \<in> set ?ids) ?gdf1"
  have sp: "nwa_split_lines C rls point_wkts nw =
            nw\<lparr>gdf := map (\<lambda>l. l\<lparr>weight := ?w l\<rparr>) ?lines, not_splitted := Some ?unsplit\<rparr>"
    by (simp add: nwa_split_lines_def Let_def)
  have num: "map geometry ?gdf1 = map geometry (gdf nw)"
       "map temp_idx_col ?gdf1 = map Some [0..<length (gdf nw)]"
    using numbered_rows [of "\<lambda>l. Some (geom_length C (geometry l))" "gdf nw"] by simp_all
  have d: "distinct (map temp_idx_col ?gdf1)"
    unfolding num(2) by (simp add: distinct_map)
  have un: "?unsplit = filter (\<lambda>l. ?cut (geometry l) \<noteq> None) ?gdf1"
    unfolding split_ids by (rule unsplit_rows [OF d])
  define out where "out = map (\<lambda>l. l\<lparr>temp_idx_col := None\<rparr>)
                (filter (\<lambda>l. splitted l \<noteq> Fin 1) (map (\<lambda>l. l\<lparr>weight := ?w l\<rparr>) ?lines) @ ?unsplit)"
  have res: "nwa_unsplit_network (nwa_split_lines C rls point_wkts nw) =
             Inr (nw\<lparr>gdf := out, not_splitted := None\<rparr>)"
    unfolding sp out_def by (simp add: nwa_unsplit_network_def)
  have "map geometry out =
        map geometry (filter (\<lambda>l. ?cut (geometry l) = None) ?gdf1) @
        map geometry (filter (\<lambda>l. ?cut (geometry l) \<noteq> None) ?gdf1)"
    unfolding out_def split_unsplit_kept un by (simp add: comp_def del: not_None_eq)
  then have g: "map geometry out =
        filter (\<lambda>g. ?cut g = None) (map geometry (gdf nw)) @
        filter (\<lambda>g. ?cut g \<noteq> None) (map geometry (gdf nw))"
    unfolding filter_map_geometry [of "\<lambda>g. ?cut g = None"]
      filter_map_geometry [of "\<lambda>g. ?cut g \<noteq> None"] num(1) .
  show ?thesis
    unfolding res using g by (intro exI [of _ "nw\<lparr>gdf := out, not_splitted := None\<rparr>"]) simp
qed

lemma partition_mset: "mset (filter P xs @ filter (\<lambda>x. \<not> P x) xs) = mset xs"
  by (induction xs) auto

text \<open>
  Claim C6. Splitting the lines of a network at the points of a call and then running
  \<open>_unsplit_network\<close> gives back the line set: as many lines as before, with the
  geometries they had, each as often as before, and the attribute \<open>_not_splitted\<close> is
  gone again. (The lines that were split now stand last, after those that were not.)
\<close>

theorem split_unsplit_restores_lines:
  "\<exists>nw'. nwa_unsplit_network (nwa_split_lines C rls point_wkts nw) = Inr nw' \<and>
         length (gdf nw') = length (gdf nw) \<and>
         mset (map geometry (gdf nw')) = mset (map geometry (gdf nw)) \<and>
         not_splitted nw' = None"
proof -
  let ?P = "\<lambda>g. cut_at C (drop_duplicates (\<lambda>w. w) point_wkts) (search_tolerance rls) g = None"
  obtain nw' where r: "nwa_unsplit_network (nwa_split_lines C rls point_wkts nw) = Inr nw'"
      "not_splitted nw' = None"
      "map geometry (gdf nw') =
         filter ?P (map geometry (gdf nw)) @ filter (\<lambda>g. \<not> ?P g) (map geometry (gdf nw))"
    using split_then_unsplit_rows [of C rls point_wkts nw] by blast
  have m: "mset (map geometry (gdf nw')) = mset (map geometry (gdf nw))"
    unfolding r(3) by (rule partition_mset)
  have "length (map geometry (gdf nw')) = length (map geometry (gdf nw))"
    using m by (rule mset_eq_length)
  then have "length (gdf nw') = length (gdf nw)" by simp
  then show ?thesis using r(1,2) m by blast
qed

theorem split_unsplit_restores_lines_witness:
  "\<exists>nw'. nwa_unsplit_network (nwa_split_lines ex_collab ex_rules [''POINT (1 0)''] ex_network) = Inr nw' \<and>
         length (gdf nw') = 2 \<and>
         mset (map geometry (gdf nw')) = {#[(0, 0), (2, 0)], [(2, 0), (2, 5)]#}"
proof -
  have "length (gdf ex_network) = 2"
    and "mset (map geometry (gdf ex_network)) = {#[(0, 0), (2, 0)], [(2, 0), (2, 5)]#}"
    by (simp_all add: ex_network_def)
  then show ?thesis
    using split_unsplit_restores_lines [of ex_collab ex_rules "[''POINT (1 0)'']" ex_network]
    by auto
qed

text \<open>
  The graph never counts as up to date, so every call makes the edge list anew, and with
  \<open>split_lines\<close> every call that gets past the validation splits the network.
\<close>

lemma graph_is_never_up_to_date: "graph_is_up_to_date has_graph rules_changed = False"
  by (simp add: graph_is_up_to_date_def)

lemma prepare_splits:
  assumes "nwa_prepare_network_analysis C rls origins destinations rowwise st = (None, st1)"
    and "split_lines rls"
  shows "\<exists>validated. validate_weight C (gdf (network st)) = Inr validated \<and>
           network st1 = nwa_split_lines C rls
             (map wkt origins @ (case destinations of None \<Rightarrow> [] | Some ds \<Rightarrow> map wkt ds))
             ((network st)\<lparr>gdf := validated\<rparr>)"
  using assms
  by (auto simp: nwa_prepare_network_analysis_def graph_is_never_up_to_date
      nwa_get_edges_and_weights_def Let_def split: if_splits sum.splits prod.splits)

text \<open>
  The six analysis methods are the shared body with their own analysis and their own
  work on the result.
\<close>

lemma analysis_methods_are_calls:
  "nwa_od_cost_matrix C rls k origins destinations rowwise st =
     nwa_call C rls k (map_ids origins destinations) origins (Some destinations) rowwise st"
  "nwa_get_route C rls k origins destinations rowwise st =
     nwa_call C rls k (map_ids origins destinations) origins (Some destinations) rowwise st"
  "nwa_get_k_routes C rls k origins destinations rowwise st =
     nwa_call C rls k (map_ids origins destinations) origins (Some destinations) rowwise st"
  "nwa_get_route_frequencies C rls None kf origins destinations rowwise st =
     nwa_call C rls kf (\<lambda>results. results) origins (Some destinations) rowwise st"
  "nwa_service_area C rls ks unary_union origins breaks dissolve st =
     nwa_call C rls (ks (sort_breaks breaks))
       (service_area_results unary_union dissolve origins) origins None False st"
  "nwa_precice_service_area C rls ks unary_union origins breaks dissolve st =
     nwa_call C rls (ks (sort_breaks breaks))
       (precice_service_area_results unary_union dissolve origins) origins None False st"
  by (simp_all add: nwa_od_cost_matrix_def nwa_get_route_def nwa_get_k_routes_def
      nwa_get_route_frequencies_def nwa_service_area_def nwa_precice_service_area_def)

text \<open>
  Claim C1, as the code has it. Each of the six analysis methods is \<open>nwa_call\<close> with
  its analysis and its work on the result. With \<open>split_lines\<close> set, a call that returns
  has undone the split: the network has as many lines as when the call validated the
  weight column, with the same geometries, and no \<open>_not_splitted\<close>. A call whose
  analysis raises after the preparation is left with that exception and with the
  network as \<open>_split_lines\<close> made it: \<open>_unsplit_network\<close> has not run.
\<close>

theorem nwa_call_unsplits_on_return:
  assumes "split_lines rls"
  shows "(\<forall>res st'. nwa_call C rls analysis post origins destinations rowwise st = (Inr res, st') \<longrightarrow>
            not_splitted (network st') = None \<and>
            (\<exists>validated. validate_weight C (gdf (network st)) = Inr validated \<and>
               length (gdf (network st')) = length validated \<and>
               mset (map geometry (gdf (network st'))) = mset (map geometry validated))) \<and>
         (\<forall>e st1. nwa_prepare_network_analysis C rls origins destinations rowwise st = (None, st1) \<and>
                  analysis st1 = Inl e \<longrightarrow>
            nwa_call C rls analysis post origins destinations rowwise st = (Inl e, st1) \<and>
            (\<exists>validated. validate_weight C (gdf (network st)) = Inr validated \<and>
               network st1 = nwa_split_lines C rls
                 (map wkt origins @ (case destinations of None \<Rightarrow> [] | Some ds \<Rightarrow> map wkt ds))
                 ((network st)\<lparr>gdf := validated\<rparr>)))"
proof -
  let ?pts = "map wkt origins @ (case destinations of None \<Rightarrow> [] | Some ds \<Rightarrow> map wkt ds)"
  have A: "not_splitted (network st') = None \<and>
        (\<exists>validated. validate_weight C (gdf (network st)) = Inr validated \<and>
               length (gdf (network st')) = length validated \<and>
               mset (map geometry (gdf (network st'))) = mset (map geometry validated))"
    if ret: "nwa_call C rls analysis post origins destinations rowwise st = (Inr res, st')"
    for res st'
  proof -
    from ret obtain st1 where p: "nwa_prepare_network_analysis C rls origins destinations rowwise st = (None, st1)"
      by (auto simp: nwa_call_def split: prod.splits option.splits)
    from ret p assms obtain unsplit where u: "nwa_unsplit_network (network st1) = Inr unsplit"
        "st' = st1\<lparr>network := unsplit\<rparr>"
      by (auto simp: nwa_call_def Let_def split: sum.splits)
    from prepare_splits [OF p assms] obtain validated where
      v: "validate_weight C (gdf (network st)) = Inr validated"
         "network st1 = nwa_split_lines C rls ?pts ((network st)\<lparr>gdf := validated\<rparr>)"
      by blast
    let ?P = "\<lambda>g. cut_at C (drop_duplicates (\<lambda>w. w) ?pts) (search_tolerance rls) g = None"
    obtain nw' where r: "nwa_unsplit_network (nwa_split_lines C rls ?pts ((network st)\<lparr>gdf := validated\<rparr>)) = Inr nw'"
        "not_splitted nw' = None"
        "map geometry (gdf nw') =
           filter ?P (map geometry validated) @ filter (\<lambda>g. \<not> ?P g) (map geometry validated)"
      using split_then_unsplit_rows [of C rls ?pts "(network st)\<lparr>gdf := validated\<rparr>"] by auto
    have eq: "unsplit = nw'" using u(1) r(1) v(2) by simp
    have m: "mset (map geometry (gdf nw')) = mset (map geometry validated)"
      unfolding r(3) by (rule partition_mset)
    have "length (map geometry (gdf nw')) = length (map geometry validated)"
      using m by (rule mset_eq_length)
    then have l: "length (gdf nw') = length validated" by simp
    show ?thesis using u(2) eq r(2) v(1) m l by simp
  qed
  have B: "nwa_call C rls analysis post origins destinations rowwise st = (Inl e, st1) \<and>
            (\<exists>validated. validate_weight C (gdf (network st)) = Inr validated \<and>
               network st1 = nwa_split_lines C rls ?pts ((network st)\<lparr>gdf := validated\<rparr>))"
    if a: "nwa_prepare_network_analysis C rls origins destinations rowwise st = (None, st1) \<and>
             analysis st1 = Inl e"
    for e st1
  proof -
    have "nwa_call C rls analysis post origins destinations rowwise st = (Inl e, st1)"
      using a by (simp add: nwa_call_def)
    then show ?thesis using prepare_splits [OF _ assms] a by blast
  qed
  show ?thesis using A B by blast
qed

text \<open>The example network: the call of \<open>get_route\<close> cuts the first line in two.\<close>

lemma ex_split:
  "nwa_split_lines ex_collab ex_rules [''POINT (1 0)'', ''POINT (9 9)''] ex_network =
     \<lparr>gdf =
        [\<lparr>geometry = [(0, 0), (1, 0)], weight = Fin 2, meters_col = Some (Fin 2),
           temp_idx_col = Some 0, splitted = Fin 1\<rparr>,
         \<lparr>geometry = [(1, 0), (2, 0)], weight = Fin 2, meters_col = Some (Fin 2),
           temp_idx_col = Some 0, splitted = Fin 1\<rparr>,
         \<lparr>geometry = [(2, 0), (2, 5)], weight = Fin 5, meters_col = Some (Fin 2),
           temp_idx_col = Some 1, splitted = NaN\<rparr>],
      not_splitted =
        Some [\<lparr>geometry = [(0, 0), (2, 0)], weight = Fin 2, meters_col = Some (Fin 2),
                temp_idx_col = Some 0, splitted = NaN\<rparr>]\<rparr>"
  by code_simp

lemma ex_prepare:
  "nwa_prepare_network_analysis ex_collab ex_rules ex_origins (Some ex_destinations) False ex_nwa =
     (None,
      \<lparr>network = nwa_split_lines ex_collab ex_rules [''POINT (1 0)'', ''POINT (9 9)''] ex_network,
       nw_graph = Some \<lparr>directed = False, vs_name = [0, 1, 2, 3, 100, 101],
           es_edge_tuples = [(0, 1), (1, 2), (2, 3)],
           es_weight = [Fin 2, Fin 2, Fin 5],
           es_source_target_weight = [''edge'', ''edge'', ''edge''],
           es_source = [0, 1, 2], es_target = [1, 2, 3]\<rparr>\<rparr>)"
  by code_simp

theorem nwa_call_unsplits_on_return_witness:
  "split_lines ex_rules \<and>
   fst (nwa_get_route ex_collab ex_rules (\<lambda>st. Inr ([] :: (nat, unit) route_row list))
          ex_origins ex_destinations False ex_nwa) = Inr [] \<and>
   mset (map geometry (gdf (network (snd
     (nwa_get_route ex_collab ex_rules (\<lambda>st. Inr ([] :: (nat, unit) route_row list))
        ex_origins ex_destinations False ex_nwa))))) =
     {#[(0, 0), (2, 0)], [(2, 0), (2, 5)]#}"
proof -
  let ?call = "nwa_call ex_collab ex_rules (\<lambda>st. Inr ([] :: (nat, unit) route_row list))
             (map_ids ex_origins ex_destinations) ex_origins (Some ex_destinations) False ex_nwa"
  have s: "split_lines ex_rules" by (simp add: ex_rules_def)
  have f: "fst ?call = Inr []" by code_simp
  then have c: "?call = (Inr [], snd ?call)" by (metis prod.collapse)
  have v: "validate_weight ex_collab (gdf (network ex_nwa)) = Inr (gdf ex_network)"
    by (simp add: ex_collab_def ex_nwa_def)
  have g: "mset (map geometry (gdf ex_network)) = {#[(0, 0), (2, 0)], [(2, 0), (2, 5)]#}"
    by (simp add: ex_network_def)
  from nwa_call_unsplits_on_return [OF s, of ex_collab "\<lambda>st. Inr ([] :: (nat, unit) route_row list)"
        "map_ids ex_origins ex_destinations" ex_origins "Some ex_destinations" False ex_nwa] c
  have "\<exists>validated. validate_weight ex_collab (gdf (network ex_nwa)) = Inr validated \<and>
          length (gdf (network (snd ?call))) = length validated \<and>
          mset (map geometry (gdf (network (snd ?call)))) = mset (map geometry validated)"
    by blast
  then have "mset (map geometry (gdf (network (snd ?call)))) = mset (map geometry (gdf ex_network))"
    using v by auto
  then show ?thesis using s f g by (simp add: nwa_get_route_def)
qed

text \<open>
  The claim as stated fails: when \<open>_get_route\<close> raises (it does when it finds no path),
  the call ends with the network still split, three lines where there were two.
\<close>

theorem nwa_call_raise_leaves_split_counterexample:
  "split_lines ex_rules \<and>
   fst (nwa_get_route ex_collab ex_rules (\<lambda>st. Inl ValueError :: error + (nat, unit) route_row list)
          ex_origins ex_destinations False ex_nwa) = Inl ValueError \<and>
   map geometry (gdf (network (snd
     (nwa_get_route ex_collab ex_rules (\<lambda>st. Inl ValueError :: error + (nat, unit) route_row list)
        ex_origins ex_destinations False ex_nwa)))) =
     [[(0, 0), (1, 0)], [(1, 0), (2, 0)], [(2, 0), (2, 5)]] \<and>
   map geometry (gdf (network ex_nwa)) = [[(0, 0), (2, 0)], [(2, 0), (2, 5)]]"
  by code_simp

section \<open>Properties of the service areas\<close>















lemma sa_origin_map_origin [simp]: "sa_origin (map_origin f r) = f (sa_origin r)"
  and sa_break_map_origin [simp]: "sa_break (map_origin f r) = sa_break r"
  by (simp_all add: map_origin_def)




text \<open>The result for the example, row by row.\<close>

lemma service_area_example:
  "service_area_results ex_union True ex_sa_origins ex_sa_results =
     [\<lparr>sa_origin = Index 0, sa_break = Some 5, sa_edge = None,
       sa_geometry = Some [(0, 0), (2, 0)]\<rparr>,
      \<lparr>sa_origin = Index 0, sa_break = Some 10, sa_edge = None,
       sa_geometry = Some [(2, 0), (2, 5)]\<rparr>,
      \<lparr>sa_origin = Index 1, sa_break = None, sa_edge = None, sa_geometry = None\<rparr>]"
  by code_simp


text \<open>
  Claim C7 fails on the code: when every geometry of the computed table is null, the
  mapping of the origin column is skipped with the rest, and the result shows the temp
  id 101 where the caller's label 1 belongs.
\<close>

lemma service_area_all_null_keeps_temp_ids:
  "service_area_results ex_union True ex_sa_origins
     [\<lparr>sa_origin = 101, sa_break = Some 5, sa_edge = None, sa_geometry = None\<rparr>] =
   [\<lparr>sa_origin = Temp 101, sa_break = Some 5, sa_edge = None, sa_geometry = None\<rparr>]"
  by code_simp

section \<open>Properties of the directed network\<close>



lemma index_simps [simp]:
  "dn_index (rename_cells a b r) = dn_index r"
  "dn_index (reverse_row r) = dn_index r"
  "dn_index (drop_cells c r) = dn_index r"
  "dn_index (set_cell c v r) = dn_index r"
  by (simp_all add: rename_cells_def reverse_row_def drop_cells_def set_cell_def)

lemma geometry_simps [simp]:
  "dn_geometry (rename_cells a b r) = dn_geometry r"
  "dn_geometry (reverse_row r) = rev (dn_geometry r)"
  "dn_geometry (drop_cells c r) = dn_geometry r"
  "dn_geometry (set_cell c v r) = dn_geometry r"
  by (simp_all add: rename_cells_def reverse_row_def drop_cells_def set_cell_def)


lemma minute_renames_index [simp]:
  "dn_index (fst (minute_renames mn) r) = dn_index r"
  "dn_index (snd (minute_renames mn) r) = dn_index r"
  "dn_geometry (fst (minute_renames mn) r) = dn_geometry r"
  "dn_geometry (snd (minute_renames mn) r) = dn_geometry r"
  by (cases mn; auto simp: minute_renames_def)+







lemma row_minutes_simps [simp]:
  "dn_index (row_minutes K sc ds fs r) = dn_index r"
  "dn_geometry (row_minutes K sc ds fs r) = dn_geometry r"
  by (auto simp: row_minutes_def Let_def speed_minutes_def fill_speed_def flat_minutes_def
        split: option.splits)

lemma directed_copy_simps [simp]:
  "dn_index (directed_copy K mc sc ds fs bw rv r) = dn_index r"
  "dn_geometry (directed_copy K mc sc ds fs bw rv r) =
     (if rv then rev (dn_geometry r) else dn_geometry r)"
  by (simp_all add: directed_copy_def Let_def)






text \<open>
  Claim C10. With \<open>minute_cols\<close> a single string of more than two characters the call
  never returns a network: it raises, and the exception is the ValueError of line 158
  whenever the direction column exists and is not itself called "minutes" (else the
  KeyError of reading that column comes first). The column is never used as the minute
  column.
\<close>

theorem minute_cols_long_string_raises:
  assumes "length s > 2"
  shows "(\<exists>e. make_directed_network K direction_col direction_vals_bft (MStr s) speed_col
               default_speed flat_speed reverse_tofrom df = Inl e) \<and>
         (direction_col \<in> set (columns df) \<and> direction_col \<noteq> ''minutes'' \<longrightarrow>
            make_directed_network K direction_col direction_vals_bft (MStr s) speed_col
              default_speed flat_speed reverse_tofrom df = Inl ValueError)"
proof -
  have ne: "bool_minute_cols (MStr s)" using assms by auto
  have names: "minute_col_names (MStr s) = Inl ValueError" using assms by simp
  have keep: "direction_col \<in> set (columns (drop_column ''minutes'' df))"
    if "direction_col \<in> set (columns df)" "direction_col \<noteq> ''minutes''"
    using that by (simp add: drop_column_def)
  show ?thesis
    unfolding make_directed_network_def Let_def using ne names keep by auto
qed

theorem minute_cols_long_string_raises_witness:
  "make_directed_network ex_numeric ''oneway'' [''B'', ''FT'', ''TF'']
     (MStr ''drivetime_fw'') None None None True ex_roads = Inl ValueError"
proof -
  have 1: "length ''drivetime_fw'' > 2" by simp
  have 2: "''oneway'' \<in> set (columns ex_roads)" by (simp add: ex_roads_def)
  show ?thesis
    using minute_cols_long_string_raises [OF 1, of ex_numeric "''oneway''" "[''B'', ''FT'', ''TF'']"
        None None None True ex_roads] 2
    by simp
qed

text \<open>A name of one character does pass as the minute column of both directions.\<close>

lemma short_string_is_used:
  "\<not> isl (make_directed_network ex_numeric ''oneway'' [''B'', ''FT'', ''TF'']
     (MStr ''m'') None None None True ex_roads)"
  by code_simp

text \<open>
  Claim C3 fails on the code: the example has four distinct codes in its direction
  column, and the call returns a network, without the line coded "X".
\<close>

lemma unlisted_code_is_not_rejected:
  "make_directed_network ex_numeric ''oneway'' [''B'', ''FT'', ''TF''] MNone None None None True
     ex_roads =
   Inr \<lparr>columns = [''oneway'', ''drivetime_fw'', ''drivetime_bw''],
        frame_rows =
          [\<lparr>dn_index = 0, dn_geometry = [(0, 0), (1, 0)],
              dn_cells = [(''oneway'', Str ''B''), (''drivetime_fw'', Flt (Fin 1)),
                 (''drivetime_bw'', Flt (Fin 2))]\<rparr>,
           \<lparr>dn_index = 0, dn_geometry = [(1, 0), (0, 0)],
              dn_cells = [(''oneway'', Str ''B''), (''drivetime_fw'', Flt (Fin 1)),
                 (''drivetime_bw'', Flt (Fin 2))]\<rparr>,
           \<lparr>dn_index = 1, dn_geometry = [(1, 0), (1, 1)],
              dn_cells = [(''oneway'', Str ''FT''), (''drivetime_fw'', Flt (Fin 3)),
                 (''drivetime_bw'', Flt (Fin (- 1)))]\<rparr>,
           \<lparr>dn_index = 2, dn_geometry = [(2, 1), (1, 1)],
              dn_cells = [(''oneway'', Str ''TF''), (''drivetime_fw'', Flt (Fin (- 1))),
                 (''drivetime_bw'', Flt (Fin 4))]\<rparr>],
        crs_unit = Some ''metre''\<rparr>"
  by code_simp

end
